theory Spec2Isabelle
  imports Complex_Main "HOL-Library.Sublist"
begin

section \<open>JavaScript values used by the services\<close>

text \<open>
  Strings are character lists. \<open>trim\<close> is \<open>String.prototype.trim\<close> on the code points
  below 256: TAB, LF, VT, FF, CR, SPACE and NBSP are white space. \<open>str_includes\<close> is
  \<open>String.prototype.includes\<close>: the argument occurs as a contiguous substring.
\<close>

definition is_ws :: "char \<Rightarrow> bool" where
  "is_ws c = (of_char c \<in> {9, 10, 11, 12, 13, 32, 160 :: nat})"

definition trim :: "string \<Rightarrow> string" where
  "trim s = rev (dropWhile is_ws (rev (dropWhile is_ws s)))"

fun str_includes :: "string \<Rightarrow> string \<Rightarrow> bool" where
  "str_includes [] sub = (sub = [])"
| "str_includes (c # cs) sub = (prefix sub (c # cs) \<or> str_includes cs sub)"

text \<open>
  An exception is an \<open>Error\<close> with its message, or the controllers' \<open>AppError\<close> with
  message, statusCode and code (errorHandler.js).
\<close>

datatype js_error =
    Error (message: string)
  | AppError (message: string) nat string

type_synonym vector = "real list"

record turn =
  role :: string
  content :: string

text \<open>
  A match returned by the vector index: \<open>metadata?.text\<close> and the score. The score is
  kept as the text that \<open>toFixed(4)\<close> renders (floating-point formatting is outside the
  model); \<open>None\<close> is an absent score.
\<close>

record match =
  metadata_text :: "string option"
  score_toFixed4 :: "string option"

text \<open>
  A chunk as the text splitter returns it (\<open>pageContent\<close>, and the two places
  \<open>storeVectors\<close> looks for a page number: \<open>metadata.loc.pageNumber\<close> and
  \<open>metadata.pageNumber\<close>), and the record \<open>storeVectors\<close> builds from it.
\<close>

record chunk =
  pageContent :: string
  loc_pageNumber :: "nat option"
  meta_pageNumber :: "nat option"

record vector_metadata =
  md_documentId :: string
  md_fileName :: string
  md_text :: string
  md_chunkIndex :: nat
  md_pageNumber :: "nat option"

record vector_record =
  record_id :: string
  record_values :: vector
  record_metadata :: vector_metadata

record pdf_data =
  pdf_text :: string
  numpages :: nat

text \<open>The document handed to the splitter: \<open>{pageContent, metadata: {source, pdf: {totalPages}}}\<close>.\<close>

record langchain_doc =
  doc_pageContent :: string
  doc_source :: string
  doc_totalPages :: nat

section \<open>Process state and the external providers\<close>

text \<open>
  Every call that leaves the process is appended to \<open>calls\<close>, in order. The lazily
  built client singletons of the services are the four flags. \<open>vector_store\<close> is the
  content of the vector index, which lives at the provider.
\<close>

datatype call =
    LlmInvoke string
  | EmbedQuery string
  | EmbedDocuments "string list"
  | IndexQuery string vector nat
  | IndexUpsert "vector_record list"
  | SetTimeout nat
  | FsStat string
  | FsReadFile string
  | PdfParse string
  | FsUnlink string

record proc =
  geminiModel :: bool
  embeddingsInstance :: bool
  pineconeClient :: bool
  pineconeIndex :: bool
  calls :: "call list"
  vector_store :: "string \<rightharpoonup> vector_record"

text \<open>
  The world outside the process: the environment variables and the answers of the
  providers, of the file system and of the libraries. An answer may depend on the input
  and on the moment of the call, which is the number of calls made before it; \<open>Inl m\<close>
  is a failure with message \<open>m\<close>. \<open>splitDocuments\<close> is the library's
  \<open>RecursiveCharacterTextSplitter\<close>, given \<open>chunkSize\<close> and \<open>chunkOverlap\<close>: its code
  is not part of the repository, so the services are verified for every splitter.
\<close>

record world =
  GEMINI_API_KEY :: "string option"
  PINECONE_API_KEY :: "string option"
  PINECONE_INDEX_NAME :: "string option"
  model_invoke :: "nat \<Rightarrow> string \<Rightarrow> string + string"
  embedQuery :: "nat \<Rightarrow> string \<Rightarrow> string + vector"
  embedDocuments :: "nat \<Rightarrow> string list \<Rightarrow> string + vector list"
  index_query :: "nat \<Rightarrow> string \<Rightarrow> vector \<Rightarrow> nat \<Rightarrow> string + match list option"
  index_upsert :: "nat \<Rightarrow> vector_record list \<Rightarrow> string + unit"
  toISOString :: "nat \<Rightarrow> string"
  fs_stat :: "nat \<Rightarrow> string \<Rightarrow> string + nat"
  fs_readFile :: "nat \<Rightarrow> string \<Rightarrow> string + string"
  pdfParse :: "nat \<Rightarrow> string \<Rightarrow> string + pdf_data option"
  splitDocuments :: "nat \<Rightarrow> nat \<Rightarrow> langchain_doc list \<Rightarrow> string + chunk list"

definition clock :: "proc \<Rightarrow> nat" where
  "clock p = length (calls p)"

definition record_call :: "call \<Rightarrow> proc \<Rightarrow> proc" where
  "record_call c p = p\<lparr>calls := calls p @ [c]\<rparr>"

text \<open>\<open>!apiKey\<close>: the variable is undefined or the empty string.\<close>

definition falsy_env :: "string option \<Rightarrow> bool" where
  "falsy_env v = (case v of None \<Rightarrow> True | Some s \<Rightarrow> s = [])"

section \<open>queryService.js\<close>

definition getGeminiModel :: "world \<Rightarrow> proc \<Rightarrow> (js_error + unit) \<times> proc" where
  "getGeminiModel w p =
     (if \<not> geminiModel p then
        (if falsy_env (GEMINI_API_KEY w)
         then (Inl (Error ''GEMINI_API_KEY environment variable is not set''), p)
         else (Inr (), p\<lparr>geminiModel := True\<rparr>))
      else (Inr (), p))"

definition role_label :: "turn \<Rightarrow> string" where
  "role_label m = (if role m = ''user'' then ''User'' else ''Assistant'')"

definition transcript :: "turn list \<Rightarrow> string" where
  "transcript history = concat (map (\<lambda>m. role_label m @ '': '' @ content m @ [CHR 10]) history)"

definition transformPrompt :: "string \<Rightarrow> turn list \<Rightarrow> string" where
  "transformPrompt question history =
     (''Previous conversation:'' @ [CHR 10] @ transcript history)
     @ [CHR 10, CHR 10] @ ''Current question: '' @ question @ [CHR 10, CHR 10]
     @ ''Based on the conversation history above, rewrite the current question as a standalone question that includes all necessary context. If the question already has all the context, return it as-is.''
     @ [CHR 10, CHR 10] @ ''Standalone question:''"

text \<open>
  The \<open>try\<close> block of \<open>transformQuery\<close>. The history is \<open>None\<close> when the caller passes
  \<open>null\<close>; an absent argument takes the default \<open>[]\<close>.
\<close>

definition transformQuery_try ::
  "world \<Rightarrow> string \<Rightarrow> turn list option \<Rightarrow> proc \<Rightarrow> (js_error + string) \<times> proc" where
  "transformQuery_try w question history p =
     (case history of
        None \<Rightarrow> (Inr question, p)
      | Some h \<Rightarrow>
          if length h = 0 then (Inr question, p)
          else
            (case getGeminiModel w p of
               (Inl e, p1) \<Rightarrow> (Inl e, p1)
             | (Inr _, p1) \<Rightarrow>
                 let prompt = transformPrompt question h;
                     p2 = record_call (LlmInvoke prompt) p1
                 in (case model_invoke w (clock p1) prompt of
                       Inl m \<Rightarrow> (Inl (Error m), p2)
                     | Inr response_content \<Rightarrow> (Inr (trim response_content), p2))))"

definition transformQuery ::
  "world \<Rightarrow> string \<Rightarrow> turn list option \<Rightarrow> proc \<Rightarrow> (js_error + string) \<times> proc" where
  "transformQuery w question history p =
     (case transformQuery_try w question history p of
        (Inl error, p1) \<Rightarrow> (Inr question, p1)
      | (Inr standaloneQuery, p1) \<Rightarrow> (Inr standaloneQuery, p1))"

text \<open>
  A \<open>catch\<close> block that throws \<open>new Error(`<label>${error.message}`)\<close>.
\<close>

definition rethrow :: "string \<Rightarrow> (js_error + 'a) \<times> proc \<Rightarrow> (js_error + 'a) \<times> proc" where
  "rethrow label r =
     (case r of
        (Inl error, p) \<Rightarrow> (Inl (Error (label @ message error)), p)
      | (Inr v, p) \<Rightarrow> (Inr v, p))"

subsection \<open>embeddingService.js and pineconeService.js: the query side\<close>

definition getEmbeddings :: "world \<Rightarrow> proc \<Rightarrow> (js_error + unit) \<times> proc" where
  "getEmbeddings w p =
     (if \<not> embeddingsInstance p then
        (if falsy_env (GEMINI_API_KEY w)
         then (Inl (Error ''GEMINI_API_KEY environment variable is not set''), p)
         else (Inr (), p\<lparr>embeddingsInstance := True\<rparr>))
      else (Inr (), p))"

definition embedText_try :: "world \<Rightarrow> string \<Rightarrow> proc \<Rightarrow> (js_error + vector) \<times> proc" where
  "embedText_try w txt p =
     (case getEmbeddings w p of
        (Inl e, p1) \<Rightarrow> (Inl e, p1)
      | (Inr _, p1) \<Rightarrow>
          let p2 = record_call (EmbedQuery txt) p1
          in (case embedQuery w (clock p1) txt of
                Inl m \<Rightarrow> (Inl (Error m), p2)
              | Inr v \<Rightarrow> (Inr v, p2)))"

definition embedText :: "world \<Rightarrow> string \<Rightarrow> proc \<Rightarrow> (js_error + vector) \<times> proc" where
  "embedText w txt p = rethrow ''Failed to generate embedding: '' (embedText_try w txt p)"

definition getPineconeClient :: "world \<Rightarrow> proc \<Rightarrow> (js_error + unit) \<times> proc" where
  "getPineconeClient w p =
     (if \<not> pineconeClient p then
        (if falsy_env (PINECONE_API_KEY w)
         then (Inl (Error ''PINECONE_API_KEY environment variable is not set''), p)
         else (Inr (), p\<lparr>pineconeClient := True\<rparr>))
      else (Inr (), p))"

definition getIndex :: "world \<Rightarrow> proc \<Rightarrow> (js_error + unit) \<times> proc" where
  "getIndex w p =
     (if \<not> pineconeIndex p then
        (if falsy_env (PINECONE_INDEX_NAME w)
         then (Inl (Error ''PINECONE_INDEX_NAME environment variable is not set''), p)
         else (case getPineconeClient w p of
                 (Inl e, p1) \<Rightarrow> (Inl e, p1)
               | (Inr _, p1) \<Rightarrow> (Inr (), p1\<lparr>pineconeIndex := True\<rparr>)))
      else (Inr (), p))"

definition searchVectors_try ::
  "world \<Rightarrow> string \<Rightarrow> vector \<Rightarrow> nat \<Rightarrow> proc \<Rightarrow> (js_error + match list) \<times> proc" where
  "searchVectors_try w documentId queryVector topK p =
     (if length queryVector = 0 then (Inl (Error ''Query vector is required''), p)
      else
        (case getIndex w p of
           (Inl e, p1) \<Rightarrow> (Inl e, p1)
         | (Inr _, p1) \<Rightarrow>
             let p2 = record_call (IndexQuery documentId queryVector topK) p1
             in (case index_query w (clock p1) documentId queryVector topK of
                   Inl m \<Rightarrow> (Inl (Error m), p2)
                 | Inr matches \<Rightarrow> (Inr (case matches of None \<Rightarrow> [] | Some ms \<Rightarrow> ms), p2))))"

definition searchVectors ::
  "world \<Rightarrow> string \<Rightarrow> vector \<Rightarrow> nat \<Rightarrow> proc \<Rightarrow> (js_error + match list) \<times> proc" where
  "searchVectors w documentId queryVector topK p =
     rethrow ''Failed to search vectors: '' (searchVectors_try w documentId queryVector topK p)"

subsection \<open>Decimal numerals and joining\<close>

definition digit_char :: "nat \<Rightarrow> char" where
  "digit_char d = char_of (48 + d)"

function string_of_nat :: "nat \<Rightarrow> string" where
  "string_of_nat n =
     (if n < 10 then [digit_char n] else string_of_nat (n div 10) @ [digit_char (n mod 10)])"
  by pat_completeness auto
termination
  by (relation "measure (\<lambda>n. n)") auto

declare string_of_nat.simps [simp del]

fun join :: "string \<Rightarrow> string list \<Rightarrow> string" where
  "join sep [] = []"
| "join sep [x] = x"
| "join sep (x # y # ys) = x @ sep @ join sep (y # ys)"

subsection \<open>searchDocuments\<close>

definition format_match :: "nat \<Rightarrow> match \<Rightarrow> string" where
  "format_match index result =
     (let text = (case metadata_text result of None \<Rightarrow> [] | Some t \<Rightarrow> t);
          score = (case score_toFixed4 result of
                     None \<Rightarrow> ''N/A''
                   | Some s \<Rightarrow> if s = [] then ''N/A'' else s)
      in ''[Chunk '' @ string_of_nat (index + 1) @ '', Relevance: '' @ score @ '']''
         @ [CHR 10] @ text)"

definition searchDocuments_try ::
  "world \<Rightarrow> string \<Rightarrow> string \<Rightarrow> nat \<Rightarrow> proc \<Rightarrow> (js_error + string) \<times> proc" where
  "searchDocuments_try w documentId query topK p =
     (case embedText w query p of
        (Inl e, p1) \<Rightarrow> (Inl e, p1)
      | (Inr queryVector, p1) \<Rightarrow>
          (case searchVectors w documentId queryVector topK p1 of
             (Inl e, p2) \<Rightarrow> (Inl e, p2)
           | (Inr searchResults, p2) \<Rightarrow>
               if length searchResults = 0 then (Inr [], p2)
               else (Inr (join ([CHR 10, CHR 10] @ ''---'' @ [CHR 10, CHR 10])
                            (map (\<lambda>(index, result). format_match index result)
                                 (enumerate 0 searchResults))), p2)))"

definition searchDocuments ::
  "world \<Rightarrow> string \<Rightarrow> string \<Rightarrow> nat \<Rightarrow> proc \<Rightarrow> (js_error + string) \<times> proc" where
  "searchDocuments w documentId query topK p =
     rethrow ''Failed to search documents: '' (searchDocuments_try w documentId query topK p)"

subsection \<open>generateAnswer\<close>

record query_result =
  answer :: string
  timestamp :: string

definition systemInstruction :: string where
  "systemInstruction =
     ''You are an expert in Data Structures and Algorithms (DSA). Your role is to provide clear, accurate, and helpful answers based on the provided document context.''
     @ [CHR 10, CHR 10] @ ''Guidelines:'' @ [CHR 10]
     @ ''- Answer questions based primarily on the provided context'' @ [CHR 10]
     @ ''- If the context doesn'' @ [CHR 39] @ ''t contain enough information, acknowledge this and provide what you can'' @ [CHR 10]
     @ ''- Be concise but thorough in your explanations'' @ [CHR 10]
     @ ''- Use examples when helpful'' @ [CHR 10]
     @ ''- If asked about code or algorithms, explain them step by step'' @ [CHR 10]
     @ ''- Maintain a helpful and educational tone''"

definition conversationContext :: "turn list option \<Rightarrow> string" where
  "conversationContext history =
     (case history of
        None \<Rightarrow> []
      | Some h \<Rightarrow>
          if length h > 0
          then [CHR 10, CHR 10] @ ''Previous conversation:'' @ [CHR 10] @ transcript h
          else [])"

definition answerPrompt :: "string \<Rightarrow> string \<Rightarrow> turn list option \<Rightarrow> string" where
  "answerPrompt query context history =
     systemInstruction @ [CHR 10, CHR 10] @ ''Document Context:'' @ [CHR 10] @ context
     @ [CHR 10] @ conversationContext history @ [CHR 10, CHR 10]
     @ ''Current Question: '' @ query @ [CHR 10, CHR 10]
     @ ''Please provide a helpful answer based on the document context and conversation history:''"

definition generateAnswer_try ::
  "world \<Rightarrow> string \<Rightarrow> string \<Rightarrow> turn list option \<Rightarrow> proc \<Rightarrow> (js_error + query_result) \<times> proc" where
  "generateAnswer_try w query context history p =
     (case getGeminiModel w p of
        (Inl e, p1) \<Rightarrow> (Inl e, p1)
      | (Inr _, p1) \<Rightarrow>
          let prompt = answerPrompt query context history;
              p2 = record_call (LlmInvoke prompt) p1
          in (case model_invoke w (clock p1) prompt of
                Inl m \<Rightarrow> (Inl (Error m), p2)
              | Inr response_content \<Rightarrow>
                  (Inr \<lparr>answer = trim response_content, timestamp = toISOString w (clock p2)\<rparr>,
                   p2)))"

definition generateAnswer ::
  "world \<Rightarrow> string \<Rightarrow> string \<Rightarrow> turn list option \<Rightarrow> proc \<Rightarrow> (js_error + query_result) \<times> proc" where
  "generateAnswer w query context history p =
     rethrow ''Failed to generate answer: '' (generateAnswer_try w query context history p)"

subsection \<open>processQuery\<close>

definition maxRetries :: nat where
  "maxRetries = 1"

definition no_information_answer :: string where
  "no_information_answer =
     ''I couldn'' @ [CHR 39] @ ''t find any relevant information in the document to answer your question. Could you please rephrase or ask something else?''"

text \<open>The body of the \<open>try\<close> block inside the loop: one attempt.\<close>

definition processQuery_try ::
  "world \<Rightarrow> string \<Rightarrow> string \<Rightarrow> turn list option \<Rightarrow> proc \<Rightarrow> (js_error + query_result) \<times> proc" where
  "processQuery_try w documentId question history p =
     (case transformQuery w question history p of
        (Inl e, p1) \<Rightarrow> (Inl e, p1)
      | (Inr standaloneQuery, p1) \<Rightarrow>
          (case searchDocuments w documentId standaloneQuery 10 p1 of
             (Inl e, p2) \<Rightarrow> (Inl e, p2)
           | (Inr context, p2) \<Rightarrow>
               if context = [] \<or> length (trim context) = 0
               then (Inr \<lparr>answer = no_information_answer,
                          timestamp = toISOString w (clock p2)\<rparr>, p2)
               else generateAnswer w standaloneQuery context history p2))"

text \<open>
  The \<open>for\<close> loop over \<open>attempt\<close>, with its \<open>catch\<close> block; the timer of the backoff is
  the call \<open>SetTimeout waitTime\<close>. The last line of the function is the branch taken
  when the loop condition fails.
\<close>

function processQuery_loop ::
  "world \<Rightarrow> string \<Rightarrow> string \<Rightarrow> turn list option \<Rightarrow> nat \<Rightarrow> js_error option \<Rightarrow> proc
   \<Rightarrow> (js_error + query_result) \<times> proc" where
  "processQuery_loop w documentId question history attempt lastError p =
     (if attempt \<le> maxRetries then
        (case processQuery_try w documentId question history p of
           (Inr result, p1) \<Rightarrow> (Inr result, p1)
         | (Inl error, p1) \<Rightarrow>
             if str_includes (message error) ''search'' then (Inl error, p1)
             else if attempt = maxRetries then (Inl error, p1)
             else
               let waitTime = 2 ^ attempt * 1000;
                   p2 = record_call (SetTimeout waitTime) p1
               in processQuery_loop w documentId question history (attempt + 1) (Some error) p2)
      else
        (Inl (case lastError of
                Some e \<Rightarrow> e
              | None \<Rightarrow> Error ''Query processing failed''), p))"
  by pat_completeness auto
termination
  by (relation "measure (\<lambda>(w, d, q, h, attempt, l, p). Suc maxRetries - attempt)") auto

declare processQuery_loop.simps [simp del]

definition processQuery ::
  "world \<Rightarrow> string \<Rightarrow> string \<Rightarrow> turn list option \<Rightarrow> proc \<Rightarrow> (js_error + query_result) \<times> proc" where
  "processQuery w documentId question history p =
     processQuery_loop w documentId question history 0 None p"

text \<open>The prompts sent to the language model, read off the call log.\<close>

fun llm_prompts :: "call list \<Rightarrow> string list" where
  "llm_prompts [] = []"
| "llm_prompts (LlmInvoke prompt # cs) = prompt # llm_prompts cs"
| "llm_prompts (c # cs) = llm_prompts cs"

subsection \<open>The retry policy as the specification words it\<close>

text \<open>
  The specification's orchestrator rewrites once and retries only the steps after the
  rewrite (retrieve, short-circuit, generate), once, one second after a failure that is
  not a search failure. These two definitions follow the specification, for comparison
  with \<open>processQuery\<close>.
\<close>

definition spec_steps_after_rewrite ::
  "world \<Rightarrow> string \<Rightarrow> string \<Rightarrow> turn list option \<Rightarrow> proc \<Rightarrow> (js_error + query_result) \<times> proc" where
  "spec_steps_after_rewrite w documentId standaloneQuery history p =
     (case searchDocuments w documentId standaloneQuery 10 p of
        (Inl e, p2) \<Rightarrow> (Inl e, p2)
      | (Inr context, p2) \<Rightarrow>
          if context = [] \<or> length (trim context) = 0
          then (Inr \<lparr>answer = no_information_answer,
                     timestamp = toISOString w (clock p2)\<rparr>, p2)
          else generateAnswer w standaloneQuery context history p2)"

definition spec_processQuery ::
  "world \<Rightarrow> string \<Rightarrow> string \<Rightarrow> turn list option \<Rightarrow> proc \<Rightarrow> (js_error + query_result) \<times> proc" where
  "spec_processQuery w documentId question history p =
     (case transformQuery w question history p of
        (Inl e, p1) \<Rightarrow> (Inl e, p1)
      | (Inr standaloneQuery, p1) \<Rightarrow>
          (case spec_steps_after_rewrite w documentId standaloneQuery history p1 of
             (Inr result, p2) \<Rightarrow> (Inr result, p2)
           | (Inl error, p2) \<Rightarrow>
               if str_includes (message error) ''search'' then (Inl error, p2)
               else spec_steps_after_rewrite w documentId standaloneQuery history
                      (record_call (SetTimeout 1000) p2)))"

section \<open>pineconeService.js: storeVectors\<close>

text \<open>\<open>a || b\<close> on two optional page numbers: \<open>undefined\<close> and \<open>0\<close> are falsy.\<close>

definition or_pageNumber :: "nat option \<Rightarrow> nat option \<Rightarrow> nat option" where
  "or_pageNumber a b = (case a of None \<Rightarrow> b | Some n \<Rightarrow> if n = 0 then b else Some n)"

definition build_record ::
  "string \<Rightarrow> vector list \<Rightarrow> string \<Rightarrow> nat \<Rightarrow> chunk \<Rightarrow> vector_record" where
  "build_record documentId vectors fileName i c =
     \<lparr>record_id = documentId @ ''-chunk-'' @ string_of_nat i,
      record_values = vectors ! i,
      record_metadata =
        \<lparr>md_documentId = documentId, md_fileName = fileName, md_text = pageContent c,
         md_chunkIndex = i,
         md_pageNumber = or_pageNumber (loc_pageNumber c) (meta_pageNumber c)\<rparr>\<rparr>"

definition build_records ::
  "string \<Rightarrow> chunk list \<Rightarrow> vector list \<Rightarrow> string \<Rightarrow> vector_record list" where
  "build_records documentId chunks vectors fileName =
     map (\<lambda>(i, c). build_record documentId vectors fileName i c) (enumerate 0 chunks)"

text \<open>
  Modelled from the spec: the vector index is a service outside the repository. Its
  \<open>upsert\<close> writes every record of the batch under the record's id, replacing a record
  that is already stored under that id (the specification's upsert by id).
\<close>

definition provider_upsert ::
  "(string \<rightharpoonup> vector_record) \<Rightarrow> vector_record list \<Rightarrow> (string \<rightharpoonup> vector_record)" where
  "provider_upsert store batch = fold (\<lambda>r m. m(record_id r \<mapsto> r)) batch store"

definition batchSize :: nat where
  "batchSize = 100"

text \<open>The loop \<open>for (let i = 0; i < records.length; i += batchSize)\<close>.\<close>

function upsert_batches ::
  "world \<Rightarrow> vector_record list \<Rightarrow> nat \<Rightarrow> proc \<Rightarrow> (js_error + unit) \<times> proc" where
  "upsert_batches w records i p =
     (if i < length records then
        (let batch = take batchSize (drop i records);
             p1 = record_call (IndexUpsert batch) p
         in (case index_upsert w (clock p) batch of
               Inl m \<Rightarrow> (Inl (Error m), p1)
             | Inr _ \<Rightarrow>
                 upsert_batches w records (i + batchSize)
                   (p1\<lparr>vector_store := provider_upsert (vector_store p1) batch\<rparr>)))
      else (Inr (), p))"
  by pat_completeness auto
termination
  by (relation "measure (\<lambda>(w, records, i, p). length records - i)") (auto simp: batchSize_def)

declare upsert_batches.simps [simp del]

definition storeVectors_try ::
  "world \<Rightarrow> string \<Rightarrow> chunk list \<Rightarrow> vector list \<Rightarrow> string \<Rightarrow> proc \<Rightarrow> (js_error + unit) \<times> proc" where
  "storeVectors_try w documentId chunks vectors fileName p =
     (if length chunks = 0 then (Inl (Error ''No chunks provided for storage''), p)
      else if length vectors = 0 then (Inl (Error ''No vectors provided for storage''), p)
      else if length chunks \<noteq> length vectors
        then (Inl (Error ''Number of chunks and vectors must match''), p)
      else
        (case getIndex w p of
           (Inl e, p1) \<Rightarrow> (Inl e, p1)
         | (Inr _, p1) \<Rightarrow>
             upsert_batches w (build_records documentId chunks vectors fileName) 0 p1))"

definition storeVectors ::
  "world \<Rightarrow> string \<Rightarrow> chunk list \<Rightarrow> vector list \<Rightarrow> string \<Rightarrow> proc \<Rightarrow> (js_error + unit) \<times> proc" where
  "storeVectors w documentId chunks vectors fileName p =
     rethrow ''Failed to store vectors: '' (storeVectors_try w documentId chunks vectors fileName p)"

section \<open>documentService.js: processDocument\<close>

record process_result =
  success :: bool
  result_pageCount :: nat
  result_chunkCount :: nat
  result_documentId :: string

text \<open>
  The outer \<open>try\<close> block. A failure of the dynamic import of the PDF parser is a
  failure of \<open>pdfParse\<close>.
\<close>

definition processDocument_try ::
  "world \<Rightarrow> string \<Rightarrow> string \<Rightarrow> string \<Rightarrow> proc \<Rightarrow> (js_error + process_result) \<times> proc" where
  "processDocument_try w filePath documentId fileName p =
     (let p1 = record_call (FsStat filePath) p in
      case fs_stat w (clock p) filePath of
        Inl _ \<Rightarrow> (Inl (Error (''File not found at path: '' @ filePath)), p1)
      | Inr stats_size \<Rightarrow>
     (let p2 = record_call (FsReadFile filePath) p1 in
      case fs_readFile w (clock p1) filePath of
        Inl m \<Rightarrow> (Inl (Error m), p2)
      | Inr dataBuffer \<Rightarrow>
     (let p3 = record_call (PdfParse dataBuffer) p2 in
      case pdfParse w (clock p2) dataBuffer of
        Inl m \<Rightarrow> (Inl (Error m), p3)
      | Inr None \<Rightarrow> (Inl (Error ''Failed to extract text from PDF or PDF is empty''), p3)
      | Inr (Some pdfData) \<Rightarrow>
          if pdf_text pdfData = [] \<or> length (trim (pdf_text pdfData)) = 0
          then (Inl (Error ''Failed to extract text from PDF or PDF is empty''), p3)
          else
     (let pageCount = numpages pdfData;
          docs = [\<lparr>doc_pageContent = pdf_text pdfData, doc_source = filePath,
                   doc_totalPages = numpages pdfData\<rparr>]
      in
      case splitDocuments w 1000 200 docs of
        Inl m \<Rightarrow> (Inl (Error m), p3)
      | Inr chunks \<Rightarrow>
     (let chunkCount = length chunks in
      if length chunks = 0 then (Inl (Error ''No chunks created from document''), p3)
      else
      case getEmbeddings w p3 of
        (Inl e, p4) \<Rightarrow> (Inl e, p4)
      | (Inr _, p4) \<Rightarrow>
     (let texts = map pageContent chunks;
          p5 = record_call (EmbedDocuments texts) p4
      in
      case embedDocuments w (clock p4) texts of
        Inl m \<Rightarrow> (Inl (Error m), p5)
      | Inr vectors \<Rightarrow>
     (case storeVectors w documentId chunks vectors fileName p5 of
        (Inl e, p6) \<Rightarrow> (Inl e, p6)
      | (Inr _, p6) \<Rightarrow>
          (Inr \<lparr>success = True, result_pageCount = pageCount,
                 result_chunkCount = chunkCount, result_documentId = documentId\<rparr>, p6))))))))"

definition processDocument ::
  "world \<Rightarrow> string \<Rightarrow> string \<Rightarrow> string \<Rightarrow> proc \<Rightarrow> (js_error + process_result) \<times> proc" where
  "processDocument w filePath documentId fileName p =
     rethrow ''Failed to process PDF document: '' (processDocument_try w filePath documentId fileName p)"

section \<open>errorHandler.js\<close>

record error_response =
  http_status :: nat
  response_success :: bool
  response_error :: string
  response_code :: string

text \<open>
  The response of the global error handler: \<open>err.statusCode || 500\<close>,
  \<open>err.message || 'Internal Server Error'\<close>, \<open>err.code || 'INTERNAL_ERROR'\<close>. The fields
  added when \<open>NODE_ENV\<close> is \<open>development\<close> and the console output are left out.
\<close>

definition errorHandler :: "js_error \<Rightarrow> error_response" where
  "errorHandler err =
     (let statusCode = (case err of Error _ \<Rightarrow> 500
                        | AppError _ sc _ \<Rightarrow> if sc = 0 then 500 else sc);
          msg = (if message err = [] then ''Internal Server Error'' else message err);
          c = (case err of Error _ \<Rightarrow> ''INTERNAL_ERROR''
               | AppError _ _ cd \<Rightarrow> if cd = [] then ''INTERNAL_ERROR'' else cd)
      in \<lparr>http_status = statusCode, response_success = False, response_error = msg,
          response_code = c\<rparr>)"

section \<open>documentController.js\<close>

record document =
  documentId :: string
  fileName :: string
  uploadDate :: string
  status :: string
  filePath :: string
  fileSize :: nat
  pageCount :: "nat option"
  chunkCount :: "nat option"
  error :: "string option"

text \<open>\<open>req.file\<close> as the upload middleware leaves it.\<close>

record upload_file =
  file_path :: string
  file_size :: nat
  originalname :: string

text \<open>
  A call of \<open>processDocument\<close> that \<open>uploadDocument\<close> has started and whose promise is
  not settled yet, with the arguments of the call.
\<close>

record task =
  task_filePath :: string
  task_documentId :: string
  task_fileName :: string

text \<open>
  The server: the module's \<open>documents\<close> map, the unsettled background calls, and the
  process state of the services.
\<close>

record server =
  documents :: "string \<rightharpoonup> document"
  background :: "task list"
  proc_state :: proc

record upload_response =
  upload_status :: nat
  upload_documentId :: string
  upload_fileName :: string
  upload_message :: string

definition fs_unlink :: "string \<Rightarrow> server \<Rightarrow> server" where
  "fs_unlink path s = s\<lparr>proc_state := record_call (FsUnlink path) (proc_state s)\<rparr>"

text \<open>The \<open>catch\<close> block of \<open>uploadDocument\<close>: \<open>if (filePath) unlink\<close>, then \<open>next(error)\<close>.\<close>

definition upload_catch :: "string \<Rightarrow> js_error \<Rightarrow> server \<Rightarrow> (js_error + upload_response) \<times> server" where
  "upload_catch path err s = (Inl err, if path \<noteq> [] then fs_unlink path s else s)"

text \<open>
  \<open>uploadDocument\<close>; \<open>uuid\<close> is what \<open>uuidv4()\<close> returns in this request. The call of
  \<open>processDocument\<close> is started and joins \<open>background\<close>; the handler answers 201 at once.
\<close>

definition uploadDocument ::
  "world \<Rightarrow> string \<Rightarrow> upload_file option \<Rightarrow> server \<Rightarrow> (js_error + upload_response) \<times> server" where
  "uploadDocument w uuid req_file s =
     (case req_file of
        None \<Rightarrow> (Inl (AppError ''No file uploaded'' 400 ''NO_FILE_UPLOADED''), s)
      | Some file \<Rightarrow>
          if file_size file = 0
          then upload_catch (file_path file) (AppError ''Uploaded file is empty'' 400 ''EMPTY_FILE'')
                 (fs_unlink (file_path file) s)
          else if originalname file = [] \<or> length (trim (originalname file)) = 0
          then upload_catch (file_path file) (AppError ''Invalid file name'' 400 ''INVALID_FILE_NAME'')
                 (fs_unlink (file_path file) s)
          else
            (let s1 = s\<lparr>documents := (documents s)(uuid \<mapsto>
                        \<lparr>documentId = uuid, fileName = originalname file,
                         uploadDate = toISOString w (clock (proc_state s)),
                         status = ''processing'', filePath = file_path file,
                         fileSize = file_size file, pageCount = None, chunkCount = None,
                         error = None\<rparr>)\<rparr>;
                 s2 = s1\<lparr>background := background s1 @
                        [\<lparr>task_filePath = file_path file, task_documentId = uuid,
                          task_fileName = originalname file\<rparr>]\<rparr>
             in (Inr \<lparr>upload_status = 201, upload_documentId = uuid,
                      upload_fileName = originalname file,
                      upload_message = ''Document uploaded and processing started''\<rparr>, s2)))"

text \<open>The callback of \<open>.then\<close> and the callback of \<open>.catch\<close>.\<close>

definition on_fulfilled :: "task \<Rightarrow> process_result \<Rightarrow> server \<Rightarrow> server" where
  "on_fulfilled t result s =
     fs_unlink (task_filePath t)
       (case documents s (task_documentId t) of
          None \<Rightarrow> s
        | Some doc \<Rightarrow>
            s\<lparr>documents := (documents s)(task_documentId t \<mapsto>
                 doc\<lparr>status := ''ready'', pageCount := Some (result_pageCount result),
                     chunkCount := Some (result_chunkCount result)\<rparr>)\<rparr>)"

definition on_rejected :: "task \<Rightarrow> js_error \<Rightarrow> server \<Rightarrow> server" where
  "on_rejected t err s =
     fs_unlink (task_filePath t)
       (case documents s (task_documentId t) of
          None \<Rightarrow> s
        | Some doc \<Rightarrow>
            s\<lparr>documents := (documents s)(task_documentId t \<mapsto>
                 doc\<lparr>status := ''failed'', error := Some (message err)\<rparr>)\<rparr>)"

text \<open>
  The background call for \<open>uuid\<close> runs and its promise settles: \<open>processDocument\<close>
  resolves or rejects, and the matching callback runs. The callback of \<open>.then\<close> throws
  nothing, so the callback of \<open>.catch\<close> runs only when \<open>processDocument\<close> rejects. A
  promise settles once: without an unsettled call for \<open>uuid\<close> nothing happens. The
  call does not touch \<open>documents\<close>, so its work is placed at the moment of settling.
\<close>

definition settle :: "world \<Rightarrow> string \<Rightarrow> server \<Rightarrow> server" where
  "settle w uuid s =
     (case find (\<lambda>t. task_documentId t = uuid) (background s) of
        None \<Rightarrow> s
      | Some t \<Rightarrow>
          (let s0 = s\<lparr>background := remove1 t (background s)\<rparr> in
           case processDocument w (task_filePath t) (task_documentId t) (task_fileName t)
                  (proc_state s0) of
             (Inr result, p1) \<Rightarrow> on_fulfilled t result (s0\<lparr>proc_state := p1\<rparr>)
           | (Inl err, p1) \<Rightarrow> on_rejected t err (s0\<lparr>proc_state := p1\<rparr>)))"

text \<open>\<open>getDocument\<close> answers with the stored metadata (the handler drops \<open>filePath\<close>).\<close>

definition getDocument :: "string \<Rightarrow> server \<Rightarrow> js_error + document" where
  "getDocument ident s =
     (case documents s ident of
        None \<Rightarrow> Inl (AppError ''Document not found'' 404 ''DOCUMENT_NOT_FOUND'')
      | Some doc \<Rightarrow> Inr doc)"

section \<open>queryController.js\<close>

record query_body =
  body_documentId :: string
  body_question :: string
  body_history :: "turn list option"

record query_response =
  query_success :: bool
  query_answer :: string
  query_timestamp :: string

text \<open>
  \<open>handleQuery\<close>: \<open>Inl err\<close> is \<open>next(err)\<close>, \<open>Inr r\<close> is \<open>res.json(r)\<close>. An absent
  \<open>history\<close> takes the default \<open>[]\<close> of the destructuring.
\<close>

definition handleQuery ::
  "world \<Rightarrow> (string \<rightharpoonup> document) \<Rightarrow> query_body \<Rightarrow> proc \<Rightarrow> (js_error + query_response) \<times> proc" where
  "handleQuery w docs body p =
     (let history = (case body_history body of None \<Rightarrow> [] | Some h \<Rightarrow> h) in
      case docs (body_documentId body) of
        None \<Rightarrow> (Inl (AppError ''Document not found'' 404 ''DOCUMENT_NOT_FOUND''), p)
      | Some doc \<Rightarrow>
          if status doc = ''processing''
          then (Inl (AppError ''Document is still being processed. Please try again in a moment.''
                       400 ''DOCUMENT_PROCESSING''), p)
          else if status doc = ''failed''
          then (Inl (AppError
                       (''Document processing failed: ''
                        @ (case error doc of
                             None \<Rightarrow> ''Unknown error''
                           | Some m \<Rightarrow> if m = [] then ''Unknown error'' else m)
                        @ ''. Please upload the document again.'')
                       400 ''DOCUMENT_FAILED''), p)
          else if status doc \<noteq> ''ready''
          then (Inl (AppError ''Document is not ready for queries'' 400 ''DOCUMENT_NOT_READY''), p)
          else
            (case processQuery w (body_documentId body) (body_question body) (Some history) p of
               (Inl err, p1) \<Rightarrow> (Inl err, p1)
             | (Inr result, p1) \<Rightarrow>
                 (Inr \<lparr>query_success = True, query_answer = answer result,
                        query_timestamp = timestamp result\<rparr>, p1)))"

section \<open>The server as a transition system\<close>

text \<open>
  What can happen to the server: an upload request (with the file the middleware
  stored and the identifier \<open>uuidv4()\<close> returns), the settling of a background call, a
  metadata request and a query request.
\<close>

datatype event =
    Upload "upload_file option" string
  | Settle string
  | GetDocument string
  | Query query_body

definition step :: "world \<Rightarrow> server \<Rightarrow> event \<Rightarrow> server" where
  "step w s e =
     (case e of
        Upload req_file uuid \<Rightarrow> snd (uploadDocument w uuid req_file s)
      | Settle uuid \<Rightarrow> settle w uuid s
      | GetDocument ident \<Rightarrow> s
      | Query body \<Rightarrow>
          s\<lparr>proc_state := snd (handleQuery w (documents s) body (proc_state s))\<rparr>)"

text \<open>The states a run passes through, after each event.\<close>

fun run :: "world \<Rightarrow> server \<Rightarrow> event list \<Rightarrow> server list" where
  "run w s [] = []"
| "run w s (e # es) = step w s e # run w (step w s e) es"

text \<open>
  \<open>uuidv4()\<close> returns an identifier that no document has: every upload of the run
  brings an identifier that is not a key of \<open>documents\<close> at that moment.
\<close>

definition fresh_event :: "server \<Rightarrow> event \<Rightarrow> bool" where
  "fresh_event s e = (case e of Upload req_file uuid \<Rightarrow> documents s uuid = None | _ \<Rightarrow> True)"

fun uuids_fresh :: "world \<Rightarrow> server \<Rightarrow> event list \<Rightarrow> bool" where
  "uuids_fresh w s [] = True"
| "uuids_fresh w s (e # es) = (fresh_event s e \<and> uuids_fresh w (step w s e) es)"

definition status_of :: "string \<Rightarrow> server \<Rightarrow> string option" where
  "status_of uuid s = map_option status (documents s uuid)"

text \<open>The status of a document along a run, with repetitions collapsed.\<close>

definition status_history :: "world \<Rightarrow> server \<Rightarrow> event list \<Rightarrow> string \<Rightarrow> string option list" where
  "status_history w s es uuid = remdups_adj (map (status_of uuid) (s # run w s es))"

text \<open>One step of a status: it stays, it appears as processing, or it leaves processing.\<close>

definition status_next :: "string option \<Rightarrow> string option \<Rightarrow> bool" where
  "status_next a b =
     (b = a \<or> (a = None \<and> b = Some ''processing'')
      \<or> (a = Some ''processing'' \<and> (b = Some ''ready'' \<or> b = Some ''failed'')))"

text \<open>
  What holds of every server a run reaches: an unsettled background call belongs to a
  document that is processing, and no two unsettled calls are for the same document.
\<close>

definition server_ok :: "server \<Rightarrow> bool" where
  "server_ok s =
     ((\<forall>t \<in> set (background s).
         case documents s (task_documentId t) of
           None \<Rightarrow> False
         | Some d \<Rightarrow> status d = ''processing'')
      \<and> distinct (map task_documentId (background s)))"

definition failed_have_error :: "server \<Rightarrow> bool" where
  "failed_have_error s =
     (\<forall>u d. documents s u = Some d \<and> status d = ''failed''
        \<longrightarrow> (\<exists>m. error d = Some m \<and> m \<noteq> []))"

definition initial_server :: server where
  "initial_server = \<lparr>documents = Map.empty, background = [],
                     proc_state = \<lparr>geminiModel = False, embeddingsInstance = False,
                                   pineconeClient = False, pineconeIndex = False, calls = [],
                                   vector_store = Map.empty\<rparr>\<rparr>"

text \<open>The server after the events \<open>es\<close>, from the start of the process.\<close>

definition reached :: "world \<Rightarrow> event list \<Rightarrow> server" where
  "reached w es = foldl (step w) initial_server es"

section \<open>Concrete processes and worlds\<close>

definition fresh_proc :: proc where
  "fresh_proc = \<lparr>geminiModel = False, embeddingsInstance = False, pineconeClient = False,
                 pineconeIndex = False, calls = [], vector_store = Map.empty\<rparr>"

definition heap_match :: match where
  "heap_match = \<lparr>metadata_text = Some ''A heap is a tree.'', score_toFixed4 = Some ''0.9000''\<rparr>"

text \<open>Every provider answers.\<close>

definition world_ok :: world where
  "world_ok = \<lparr>GEMINI_API_KEY = Some ''g'', PINECONE_API_KEY = Some ''p'',
               PINECONE_INDEX_NAME = Some ''idx'',
               model_invoke = (\<lambda>t prompt. Inr '' ok ''),
               embedQuery = (\<lambda>t txt. Inr [1]),
               embedDocuments = (\<lambda>t txts. Inr (map (\<lambda>x. [1]) txts)),
               index_query = (\<lambda>t d v k. Inr (Some [heap_match])),
               index_upsert = (\<lambda>t batch. Inr ()),
               toISOString = (\<lambda>t. ''2024-01-01T00:00:00.000Z''),
               fs_stat = (\<lambda>t path. Inr 2048),
               fs_readFile = (\<lambda>t path. Inr ''%PDF''),
               pdfParse = (\<lambda>t buf. Inr (Some \<lparr>pdf_text = ''Heaps and tries.'', numpages = 3\<rparr>)),
               splitDocuments = (\<lambda>chunkSize chunkOverlap docs.
                 Inr (map (\<lambda>d. \<lparr>pageContent = doc_pageContent d, loc_pageNumber = None,
                                  meta_pageNumber = None\<rparr>) docs))\<rparr>"

text \<open>The language model fails once, at the fourth call of the process.\<close>

definition world_hiccup :: world where
  "world_hiccup = world_ok\<lparr>model_invoke :=
     (\<lambda>t prompt. if t = 3 then Inl ''quota exceeded'' else Inr '' ok '')\<rparr>"

text \<open>The language model always fails; the index always fails; the index finds nothing.\<close>

definition world_llm_down :: world where
  "world_llm_down = world_ok\<lparr>model_invoke := (\<lambda>t prompt. Inl ''503 unavailable'')\<rparr>"

definition world_index_down :: world where
  "world_index_down = world_ok\<lparr>index_query := (\<lambda>t d v k. Inl ''connection refused'')\<rparr>"

definition world_no_matches :: world where
  "world_no_matches = world_ok\<lparr>index_query := (\<lambda>t d v k. Inr (Some []))\<rparr>"

text \<open>
  The language model fails on the first answer, and the index finds a match in the
  first attempt only.
\<close>

definition world_retry_empty :: world where
  "world_retry_empty = world_hiccup\<lparr>index_query :=
     (\<lambda>t d v k. if t = 2 then Inr (Some [heap_match]) else Inr (Some []))\<rparr>"

definition one_turn :: "turn list" where
  "one_turn = [\<lparr>role = ''user'', content = ''What is a heap?''\<rparr>]"

text \<open>The uploaded file is gone when the background call looks for it.\<close>

definition world_no_file :: world where
  "world_no_file = world_ok\<lparr>fs_stat := (\<lambda>t path. Inl ''ENOENT'')\<rparr>"

definition lecture_file :: upload_file where
  "lecture_file = \<lparr>file_path = ''uploads/1-lecture.pdf'', file_size = 2048,
                   originalname = ''lecture.pdf''\<rparr>"

definition lecture_task :: task where
  "lecture_task = \<lparr>task_filePath = ''uploads/1-lecture.pdf'', task_documentId = ''d1'',
                   task_fileName = ''lecture.pdf''\<rparr>"

definition lecture_processing :: document where
  "lecture_processing =
     \<lparr>documentId = ''d1'', fileName = ''lecture.pdf'',
      uploadDate = ''2024-01-01T00:00:00.000Z'', status = ''processing'',
      filePath = ''uploads/1-lecture.pdf'', fileSize = 2048, pageCount = None,
      chunkCount = None, error = None\<rparr>"

definition lecture_failed :: document where
  "lecture_failed = lecture_processing\<lparr>status := ''failed'',
     error := Some ''Failed to process PDF document: File not found at path: uploads/1-lecture.pdf''\<rparr>"

definition two_chunks :: "chunk list" where
  "two_chunks = [\<lparr>pageContent = ''Heaps.'', loc_pageNumber = None, meta_pageNumber = Some 1\<rparr>,
                 \<lparr>pageContent = ''Tries.'', loc_pageNumber = Some 2, meta_pageNumber = None\<rparr>]"

definition lecture_query :: query_body where
  "lecture_query = \<lparr>body_documentId = ''d1'', body_question = ''What is a heap?'',
                    body_history = None\<rparr>"

definition lecture_run :: "event list" where
  "lecture_run = [Upload (Some lecture_file) ''d1'', Query lecture_query, Settle ''d1'',
                  Settle ''d1'', GetDocument ''d1'']"

section \<open>Properties\<close>

subsection \<open>Strings and the call log\<close>

lemma str_includes_sublist: "str_includes s sub = sublist sub s"
  by (induction s) (auto simp: sublist_Cons_right)

lemma rethrow_tagged:
  "rethrow label r = (Inl e, p) \<Longrightarrow> str_includes label sub \<Longrightarrow> str_includes (message e) sub"
  by (auto simp: rethrow_def str_includes_sublist sublist_append split: prod.splits sum.splits)

lemma rethrow_state: "rethrow label r = (x, p') \<Longrightarrow> snd r = p'"
  by (auto simp: rethrow_def split: prod.splits sum.splits)

lemma llm_prompts_append: "llm_prompts (xs @ ys) = llm_prompts xs @ llm_prompts ys"
  by (induction xs rule: llm_prompts.induct) simp_all

lemma getEmbeddings_calls: "getEmbeddings w p = (x, p') \<Longrightarrow> calls p' = calls p"
  by (auto simp: getEmbeddings_def split: if_splits)

lemma getPineconeClient_calls: "getPineconeClient w p = (x, p') \<Longrightarrow> calls p' = calls p"
  by (auto simp: getPineconeClient_def split: if_splits)

lemma getIndex_calls: "getIndex w p = (x, p') \<Longrightarrow> calls p' = calls p"
  by (auto simp: getIndex_def split: if_splits prod.splits sum.splits dest: getPineconeClient_calls)

subsection \<open>Retrieval\<close>

text \<open>Every error that \<open>searchDocuments\<close> throws carries the word the retry policy looks for.\<close>

lemma searchDocuments_error_tagged:
  "searchDocuments w d q k p = (Inl e, p') \<Longrightarrow> str_includes (message e) ''search''"
  unfolding searchDocuments_def
  by (erule rethrow_tagged) simp

text \<open>Retrieval never prompts the language model.\<close>

lemma embedText_prompts:
  "embedText w txt p = (x, p') \<Longrightarrow> llm_prompts (calls p') = llm_prompts (calls p)"
  by (auto simp: embedText_def embedText_try_def record_call_def Let_def llm_prompts_append
           dest!: rethrow_state getEmbeddings_calls split: prod.splits sum.splits)

lemma searchVectors_prompts:
  "searchVectors w d v k p = (x, p') \<Longrightarrow> llm_prompts (calls p') = llm_prompts (calls p)"
  by (auto simp: searchVectors_def searchVectors_try_def record_call_def Let_def llm_prompts_append
           dest!: rethrow_state getIndex_calls split: prod.splits sum.splits if_splits)

lemma searchDocuments_prompts:
  assumes "searchDocuments w d q k p = (x, p')"
  shows "llm_prompts (calls p') = llm_prompts (calls p)"
proof -
  from assms have s: "snd (searchDocuments_try w d q k p) = p'"
    unfolding searchDocuments_def by (rule rethrow_state)
  obtain r1 p1 where et: "embedText w q p = (r1, p1)"
    by (cases "embedText w q p")
  note e = embedText_prompts[OF et]
  show ?thesis
  proof (cases r1)
    case (Inl a)
    with et s e show ?thesis by (simp add: searchDocuments_try_def)
  next
    case (Inr v)
    obtain r2 p2 where sv: "searchVectors w d v k p1 = (r2, p2)"
      by (cases "searchVectors w d v k p1")
    from searchVectors_prompts[OF sv] e et Inr sv s show ?thesis
      by (auto simp: searchDocuments_try_def split: sum.splits if_splits)
  qed
qed

subsection \<open>The query rewriter\<close>

lemma transformQuery_resolves:
  "\<exists>s. fst (transformQuery w question history p) = Inr s"
  by (simp add: transformQuery_def split: prod.splits sum.splits)

text \<open>
  Claim C7. When the language model fails on the rewriting prompt, \<open>transformQuery\<close>
  resolves with the question it was given; and whatever the world, the question, the
  history and the process state, \<open>transformQuery\<close> resolves: it never throws.
\<close>

theorem transformQuery_swallows_provider_error:
  assumes "history = Some h" and "h \<noteq> []"
    and "model_invoke w (clock (snd (getGeminiModel w p))) (transformPrompt question h) = Inl m"
  shows "fst (transformQuery w question history p) = Inr question
         \<and> (\<forall>w' q' h' p'. \<exists>s. fst (transformQuery w' q' h' p') = Inr s)"
proof
  show "fst (transformQuery w question history p) = Inr question"
    using assms
    by (auto simp: transformQuery_def transformQuery_try_def Let_def split: prod.splits sum.splits)
  show "\<forall>w' q' h' p'. \<exists>s. fst (transformQuery w' q' h' p') = Inr s"
    by (simp add: transformQuery_resolves)
qed

theorem transformQuery_swallows_provider_error_witness:
  "model_invoke world_llm_down (clock (snd (getGeminiModel world_llm_down fresh_proc)))
     (transformPrompt ''q'' one_turn) = Inl ''503 unavailable''
   \<and> fst (transformQuery world_llm_down ''q'' (Some one_turn) fresh_proc) = Inr ''q''"
proof -
  have h: "one_turn \<noteq> []"
    by (simp add: one_turn_def)
  have m: "model_invoke world_llm_down (clock (snd (getGeminiModel world_llm_down fresh_proc)))
     (transformPrompt ''q'' one_turn) = Inl ''503 unavailable''"
    by (simp add: world_llm_down_def)
  from transformQuery_swallows_provider_error[OF refl h m] m show ?thesis
    by simp
qed

text \<open>
  Claim C8. With the history \<open>[]\<close>, and with no history at all, \<open>transformQuery\<close>
  resolves with the question and leaves the process state as it was: no client is
  built and no call is made.
\<close>

theorem transformQuery_without_history:
  "transformQuery w q (Some []) p = (Inr q, p) \<and> transformQuery w q None p = (Inr q, p)"
  by (simp add: transformQuery_def transformQuery_try_def)

theorem transformQuery_without_history_witness:
  "transformQuery world_llm_down ''q'' (Some []) fresh_proc = (Inr ''q'', fresh_proc)
   \<and> calls (snd (transformQuery world_llm_down ''q'' None fresh_proc)) = []"
  using transformQuery_without_history[of world_llm_down "''q''" fresh_proc]
  by (simp add: fresh_proc_def)

subsection \<open>The orchestrator\<close>

text \<open>
  Claim C3. When an attempt of \<open>processQuery\<close> throws an error whose message contains
  \<open>search\<close>, \<open>processQuery\<close> rejects with that error, and the process state it leaves is
  the one that attempt left: no timer is set and no other attempt runs. This holds for
  the attempt with any index the loop admits, and so for the first. Every error that
  retrieval throws is such an error (\<open>searchDocuments_error_tagged\<close>).
\<close>

theorem search_failure_surfaces_immediately:
  assumes "processQuery_try w docId question history p = (Inl e, p1)"
    and "str_includes (message e) ''search''"
    and "attempt \<le> maxRetries"
  shows "processQuery_loop w docId question history attempt lastError p = (Inl e, p1)
         \<and> processQuery w docId question history p = (Inl e, p1)"
proof -
  have "processQuery_loop w docId question history k l p = (Inl e, p1)" if "k \<le> maxRetries" for k l
    using assms(1,2) that by (subst processQuery_loop.simps) simp
  from this[OF assms(3)] this[of 0] show ?thesis
    by (simp add: processQuery_def)
qed

theorem search_failure_surfaces_immediately_witness:
  "processQuery world_index_down ''doc'' ''q'' None fresh_proc =
     (Inl (Error ''Failed to search documents: Failed to search vectors: connection refused''),
      fresh_proc\<lparr>embeddingsInstance := True, pineconeClient := True, pineconeIndex := True,
                 calls := [EmbedQuery ''q'', IndexQuery ''doc'' [1] 10]\<rparr>)"
proof -
  have t: "processQuery_try world_index_down ''doc'' ''q'' None fresh_proc =
     (Inl (Error ''Failed to search documents: Failed to search vectors: connection refused''),
      fresh_proc\<lparr>embeddingsInstance := True, pineconeClient := True, pineconeIndex := True,
                 calls := [EmbedQuery ''q'', IndexQuery ''doc'' [1] 10]\<rparr>)"
    by (simp add: processQuery_try_def transformQuery_def transformQuery_try_def
        searchDocuments_def searchDocuments_try_def embedText_def embedText_try_def
        getEmbeddings_def searchVectors_def searchVectors_try_def getIndex_def
        getPineconeClient_def rethrow_def record_call_def clock_def falsy_env_def
        world_index_down_def world_ok_def fresh_proc_def)
  have i: "str_includes (message (Error ''Failed to search documents: Failed to search vectors: connection refused'')) ''search''"
    by simp
  have m: "(0::nat) \<le> maxRetries"
    by simp
  from search_failure_surfaces_immediately[OF t i m] show ?thesis
    by simp
qed

text \<open>
  Claim C4, as the code has it. When the first attempt throws an error whose message
  does not contain \<open>search\<close>, \<open>processQuery\<close> sets a timer of 1000 ms and then runs the
  whole attempt once more, the rewriting included; the outcome of the second attempt,
  a result or an error, is the outcome of \<open>processQuery\<close>.
\<close>

theorem retry_reruns_whole_attempt:
  assumes "processQuery_try w docId question history p = (Inl e, p1)"
    and "\<not> str_includes (message e) ''search''"
  shows "processQuery w docId question history p =
           processQuery_try w docId question history (record_call (SetTimeout 1000) p1)"
proof -
  let ?p2 = "record_call (SetTimeout 1000) p1"
  have first: "processQuery_loop w docId question history 0 None p =
      processQuery_loop w docId question history 1 (Some e) ?p2"
    using assms by (subst processQuery_loop.simps) (simp add: maxRetries_def)
  have second: "processQuery_loop w docId question history 1 (Some e) ?p2 =
      processQuery_try w docId question history ?p2"
    by (subst processQuery_loop.simps) (simp add: maxRetries_def split: prod.splits sum.splits)
  from first second show ?thesis
    by (simp add: processQuery_def)
qed

theorem retry_reruns_whole_attempt_witness:
  "fst (processQuery world_hiccup ''doc'' ''q'' (Some one_turn) fresh_proc) =
     Inr \<lparr>answer = ''ok'', timestamp = ''2024-01-01T00:00:00.000Z''\<rparr>"
proof -
  define p1 where "p1 = snd (processQuery_try world_hiccup ''doc'' ''q'' (Some one_turn) fresh_proc)"
  have f: "fst (processQuery_try world_hiccup ''doc'' ''q'' (Some one_turn) fresh_proc) =
      Inl (Error ''Failed to generate answer: quota exceeded'')"
    by code_simp
  have t: "processQuery_try world_hiccup ''doc'' ''q'' (Some one_turn) fresh_proc =
      (Inl (Error ''Failed to generate answer: quota exceeded''), p1)"
    using f by (simp add: p1_def prod_eq_iff)
  have n: "\<not> str_includes (message (Error ''Failed to generate answer: quota exceeded'')) ''search''"
    by code_simp
  have "fst (processQuery_try world_hiccup ''doc'' ''q'' (Some one_turn)
          (record_call (SetTimeout 1000)
             (snd (processQuery_try world_hiccup ''doc'' ''q'' (Some one_turn) fresh_proc)))) =
     Inr \<lparr>answer = ''ok'', timestamp = ''2024-01-01T00:00:00.000Z''\<rparr>"
    by code_simp
  with retry_reruns_whole_attempt[OF t n] show ?thesis
    by (simp add: p1_def)
qed

text \<open>
  Claim C4, as the specification words it, fails. In the world where the language
  model fails once, on the answer of the first attempt, the first attempt throws an
  error without \<open>search\<close>; \<open>processQuery\<close> then sends the rewriting prompt a second
  time, where the specification's orchestrator sends it once.
\<close>

theorem retry_repeats_rewrite_counterexample:
  "fst (processQuery_try world_hiccup ''doc'' ''q'' (Some one_turn) fresh_proc) =
      Inl (Error ''Failed to generate answer: quota exceeded'')
   \<and> \<not> str_includes ''Failed to generate answer: quota exceeded'' ''search''
   \<and> count_list (llm_prompts (calls (snd (processQuery world_hiccup ''doc'' ''q'' (Some one_turn) fresh_proc))))
        (transformPrompt ''q'' one_turn) = 2
   \<and> count_list (llm_prompts (calls (snd (spec_processQuery world_hiccup ''doc'' ''q'' (Some one_turn) fresh_proc))))
        (transformPrompt ''q'' one_turn) = 1
   \<and> processQuery world_hiccup ''doc'' ''q'' (Some one_turn) fresh_proc
       \<noteq> spec_processQuery world_hiccup ''doc'' ''q'' (Some one_turn) fresh_proc"
proof -
  have a: "fst (processQuery_try world_hiccup ''doc'' ''q'' (Some one_turn) fresh_proc) =
      Inl (Error ''Failed to generate answer: quota exceeded'')"
    by code_simp
  have b: "\<not> str_includes ''Failed to generate answer: quota exceeded'' ''search''"
    by code_simp
  have c: "count_list (llm_prompts (calls (snd (processQuery world_hiccup ''doc'' ''q'' (Some one_turn) fresh_proc))))
        (transformPrompt ''q'' one_turn) = 2"
    by code_simp
  have d: "count_list (llm_prompts (calls (snd (spec_processQuery world_hiccup ''doc'' ''q'' (Some one_turn) fresh_proc))))
        (transformPrompt ''q'' one_turn) = 1"
    by code_simp
  from c d have "processQuery world_hiccup ''doc'' ''q'' (Some one_turn) fresh_proc
       \<noteq> spec_processQuery world_hiccup ''doc'' ''q'' (Some one_turn) fresh_proc"
    by auto
  with a b c d show ?thesis
    by blast
qed

text \<open>
  Claim C5. When, in an attempt of \<open>processQuery\<close>, the retrieved context is empty or
  only white space, the attempt resolves with the answer
  \<open>I couldn't find any relevant information in the document to answer your question.
  Could you please rephrase or ask something else?\<close> and a timestamp, in the process
  state that retrieval left: nothing is called after retrieval, and the prompts the
  language model has received are those it had received when the rewriting of this
  attempt ended, so \<open>generateAnswer\<close> is not invoked in the attempt. That result is
  the result of the loop from this attempt on, whatever its index, and so of
  \<open>processQuery\<close> when the attempt is the first and when it is the retry.
\<close>

theorem empty_context_short_circuits:
  assumes "transformQuery w question history p = (Inr standaloneQuery, p1)"
    and "searchDocuments w docId standaloneQuery 10 p1 = (Inr context, p2)"
    and "trim context = []"
    and "attempt \<le> maxRetries"
  shows "(let fixed =
            (Inr \<lparr>answer = ''I couldn'' @ [CHR 39] @ ''t find any relevant information in the document to answer your question. Could you please rephrase or ask something else?'',
                   timestamp = toISOString w (clock p2)\<rparr>, p2)
          in processQuery_try w docId question history p = fixed
           \<and> processQuery_loop w docId question history attempt lastError p = fixed
           \<and> processQuery w docId question history p = fixed
           \<and> (\<forall>p0 e pf. processQuery_try w docId question history p0 = (Inl e, pf)
                  \<and> \<not> str_includes (message e) ''search''
                  \<and> p = record_call (SetTimeout 1000) pf
                \<longrightarrow> processQuery w docId question history p0 = fixed))
         \<and> llm_prompts (calls p2) = llm_prompts (calls p1)"
proof -
  let ?fixed = "(Inr \<lparr>answer = ''I couldn'' @ [CHR 39] @ ''t find any relevant information in the document to answer your question. Could you please rephrase or ask something else?'',
                   timestamp = toISOString w (clock p2)\<rparr>, p2)"
  from assms(1-3) have t: "processQuery_try w docId question history p = ?fixed"
    by (simp add: processQuery_try_def no_information_answer_def)
  have loop: "processQuery_loop w docId question history k l p = ?fixed" if "k \<le> maxRetries" for k l
    using that by (subst processQuery_loop.simps) (simp add: t)
  have first: "processQuery w docId question history p = ?fixed"
    unfolding processQuery_def by (rule loop) simp
  have retry: "processQuery w docId question history p0 = ?fixed"
    if a: "processQuery_try w docId question history p0 = (Inl e, pf)"
      and n: "\<not> str_includes (message e) ''search''"
      and s: "p = record_call (SetTimeout 1000) pf" for p0 e pf
  proof -
    have "processQuery_loop w docId question history 0 None p0 =
        processQuery_loop w docId question history 1 (Some e) p"
      using a n s by (subst processQuery_loop.simps) (simp add: maxRetries_def)
    also have "\<dots> = ?fixed"
      by (rule loop) (simp add: maxRetries_def)
    finally show ?thesis
      by (simp add: processQuery_def)
  qed
  from t loop[OF assms(4)] first retry searchDocuments_prompts[OF assms(2)]
  show ?thesis
    unfolding Let_def by blast
qed

theorem empty_context_short_circuits_witness:
  "fst (processQuery world_no_matches ''doc'' ''q'' (Some one_turn) fresh_proc) =
     Inr \<lparr>answer = ''I couldn'' @ [CHR 39] @ ''t find any relevant information in the document to answer your question. Could you please rephrase or ask something else?'',
           timestamp = ''2024-01-01T00:00:00.000Z''\<rparr>
   \<and> llm_prompts (calls (snd (processQuery world_no_matches ''doc'' ''q'' (Some one_turn) fresh_proc)))
       = [transformPrompt ''q'' one_turn]
   \<and> fst (processQuery_try world_retry_empty ''doc'' ''q'' (Some one_turn) fresh_proc) =
       Inl (Error ''Failed to generate answer: quota exceeded'')
   \<and> fst (processQuery world_retry_empty ''doc'' ''q'' (Some one_turn) fresh_proc) =
     Inr \<lparr>answer = ''I couldn'' @ [CHR 39] @ ''t find any relevant information in the document to answer your question. Could you please rephrase or ask something else?'',
           timestamp = ''2024-01-01T00:00:00.000Z''\<rparr>"
proof -
  have e: "trim [] = []"
    by (simp add: trim_def)
  have m: "(0::nat) \<le> maxRetries"
    by simp
  define p1 where "p1 = snd (transformQuery world_no_matches ''q'' (Some one_turn) fresh_proc)"
  define p2 where "p2 = snd (searchDocuments world_no_matches ''doc'' ''ok'' 10 p1)"
  have "fst (transformQuery world_no_matches ''q'' (Some one_turn) fresh_proc) = Inr ''ok''"
    by code_simp
  then have t: "transformQuery world_no_matches ''q'' (Some one_turn) fresh_proc = (Inr ''ok'', p1)"
    by (simp add: p1_def prod_eq_iff)
  have "fst (searchDocuments world_no_matches ''doc'' ''ok'' 10
          (snd (transformQuery world_no_matches ''q'' (Some one_turn) fresh_proc))) = Inr []"
    by code_simp
  then have s: "searchDocuments world_no_matches ''doc'' ''ok'' 10 p1 = (Inr [], p2)"
    by (simp add: p1_def p2_def prod_eq_iff)
  have l: "llm_prompts (calls p1) = [transformPrompt ''q'' one_turn]"
    unfolding p1_def by code_simp
  have c: "toISOString world_no_matches (clock p2) = ''2024-01-01T00:00:00.000Z''"
    by (simp add: world_no_matches_def world_ok_def)
  from empty_context_short_circuits[OF t s e m] l c
  have part1: "fst (processQuery world_no_matches ''doc'' ''q'' (Some one_turn) fresh_proc) =
     Inr \<lparr>answer = ''I couldn'' @ [CHR 39] @ ''t find any relevant information in the document to answer your question. Could you please rephrase or ask something else?'',
           timestamp = ''2024-01-01T00:00:00.000Z''\<rparr>
   \<and> llm_prompts (calls (snd (processQuery world_no_matches ''doc'' ''q'' (Some one_turn) fresh_proc)))
       = [transformPrompt ''q'' one_turn]"
    by (simp add: Let_def)
  define pf where "pf = snd (processQuery_try world_retry_empty ''doc'' ''q'' (Some one_turn) fresh_proc)"
  define q0 where "q0 = record_call (SetTimeout 1000) pf"
  define q1 where "q1 = snd (transformQuery world_retry_empty ''q'' (Some one_turn) q0)"
  define q2 where "q2 = snd (searchDocuments world_retry_empty ''doc'' ''ok'' 10 q1)"
  have f: "fst (processQuery_try world_retry_empty ''doc'' ''q'' (Some one_turn) fresh_proc) =
      Inl (Error ''Failed to generate answer: quota exceeded'')"
    by code_simp
  then have a: "processQuery_try world_retry_empty ''doc'' ''q'' (Some one_turn) fresh_proc =
      (Inl (Error ''Failed to generate answer: quota exceeded''), pf)"
    by (simp add: pf_def prod_eq_iff)
  have n: "\<not> str_includes (message (Error ''Failed to generate answer: quota exceeded'')) ''search''"
    by code_simp
  have "fst (transformQuery world_retry_empty ''q'' (Some one_turn)
          (record_call (SetTimeout 1000)
             (snd (processQuery_try world_retry_empty ''doc'' ''q'' (Some one_turn) fresh_proc)))) =
        Inr ''ok''"
    by code_simp
  then have t': "transformQuery world_retry_empty ''q'' (Some one_turn) q0 = (Inr ''ok'', q1)"
    by (simp add: q1_def q0_def pf_def prod_eq_iff)
  have "fst (searchDocuments world_retry_empty ''doc'' ''ok'' 10
          (snd (transformQuery world_retry_empty ''q'' (Some one_turn)
            (record_call (SetTimeout 1000)
               (snd (processQuery_try world_retry_empty ''doc'' ''q'' (Some one_turn) fresh_proc)))))) =
        Inr []"
    by code_simp
  then have s': "searchDocuments world_retry_empty ''doc'' ''ok'' 10 q1 = (Inr [], q2)"
    by (simp add: q2_def q1_def q0_def pf_def prod_eq_iff)
  have c': "toISOString world_retry_empty (clock q2) = ''2024-01-01T00:00:00.000Z''"
    by (simp add: world_retry_empty_def world_hiccup_def world_ok_def)
  from empty_context_short_circuits[OF t' s' e m]
  have "\<forall>p0 e pf'. processQuery_try world_retry_empty ''doc'' ''q'' (Some one_turn) p0 = (Inl e, pf')
            \<and> \<not> str_includes (message e) ''search'' \<and> q0 = record_call (SetTimeout 1000) pf'
          \<longrightarrow> processQuery world_retry_empty ''doc'' ''q'' (Some one_turn) p0 =
               (Inr \<lparr>answer = ''I couldn'' @ [CHR 39] @ ''t find any relevant information in the document to answer your question. Could you please rephrase or ask something else?'',
                      timestamp = toISOString world_retry_empty (clock q2)\<rparr>, q2)"
    by (simp add: Let_def)
  with a n have "processQuery world_retry_empty ''doc'' ''q'' (Some one_turn) fresh_proc =
               (Inr \<lparr>answer = ''I couldn'' @ [CHR 39] @ ''t find any relevant information in the document to answer your question. Could you please rephrase or ask something else?'',
                      timestamp = toISOString world_retry_empty (clock q2)\<rparr>, q2)"
    unfolding q0_def by blast
  with c' have part2: "fst (processQuery world_retry_empty ''doc'' ''q'' (Some one_turn) fresh_proc) =
     Inr \<lparr>answer = ''I couldn'' @ [CHR 39] @ ''t find any relevant information in the document to answer your question. Could you please rephrase or ask something else?'',
           timestamp = ''2024-01-01T00:00:00.000Z''\<rparr>"
    by simp
  from part1 f part2 show ?thesis
    by blast
qed

subsection \<open>The query controller\<close>

text \<open>
  Claim C9. A query for a document whose status is \<open>processing\<close> is handed to the
  error handler as an \<open>AppError\<close> with code \<open>DOCUMENT_PROCESSING\<close>, which the error
  handler answers with that code; the process state is untouched, so no step of the
  query pipeline has run.
\<close>

theorem handleQuery_rejects_processing:
  assumes "docs (body_documentId body) = Some doc" and "status doc = ''processing''"
  shows "handleQuery w docs body p =
           (Inl (AppError ''Document is still being processed. Please try again in a moment.''
                   400 ''DOCUMENT_PROCESSING''), p)
         \<and> response_code (errorHandler (AppError
               ''Document is still being processed. Please try again in a moment.''
               400 ''DOCUMENT_PROCESSING'')) = ''DOCUMENT_PROCESSING''"
  using assms by (simp add: handleQuery_def errorHandler_def Let_def)

theorem handleQuery_rejects_processing_witness:
  "status_of ''d1'' (step world_ok initial_server (Upload (Some lecture_file) ''d1'')) = Some ''processing''
   \<and> fst (handleQuery world_ok
            (documents (step world_ok initial_server (Upload (Some lecture_file) ''d1'')))
            lecture_query fresh_proc)
       = Inl (AppError ''Document is still being processed. Please try again in a moment.''
                400 ''DOCUMENT_PROCESSING'')"
proof -
  let ?s = "step world_ok initial_server (Upload (Some lecture_file) ''d1'')"
  let ?doc = "\<lparr>documentId = ''d1'', fileName = ''lecture.pdf'',
      uploadDate = ''2024-01-01T00:00:00.000Z'', status = ''processing'',
      filePath = ''uploads/1-lecture.pdf'', fileSize = 2048, pageCount = None,
      chunkCount = None, error = None\<rparr>"
  have d: "documents ?s (body_documentId lecture_query) = Some ?doc"
    by (simp add: step_def uploadDocument_def lecture_file_def lecture_query_def
        initial_server_def world_ok_def trim_def is_ws_def clock_def Let_def)
  have st: "status ?doc = ''processing''"
    by simp
  from handleQuery_rejects_processing[where docs = "documents ?s" and body = lecture_query
      and w = world_ok and p = fresh_proc, OF d st] d
  show ?thesis
    by (simp add: status_of_def lecture_query_def)
qed

subsection \<open>The vector index\<close>

lemma string_of_nat_inverse:
  "foldl (\<lambda>a c. 10 * a + (of_char c - 48)) 0 (string_of_nat n) = n"
proof (induction n rule: string_of_nat.induct)
  case (1 n)
  show ?case
  proof (cases "n < 10")
    case True
    then show ?thesis
      by (subst string_of_nat.simps) (simp add: digit_char_def)
  next
    case False
    have "n mod 10 < 10" by simp
    then have d: "of_char (digit_char (n mod 10)) - 48 = n mod 10"
      by (simp add: digit_char_def)
    from False 1 d show ?thesis
      by (subst string_of_nat.simps) simp
  qed
qed

lemma string_of_nat_inj:
  assumes "string_of_nat a = string_of_nat b"
  shows "a = b"
proof -
  have "foldl (\<lambda>a c. 10 * a + (of_char c - 48)) (0::nat) (string_of_nat a) =
        foldl (\<lambda>a c. 10 * a + (of_char c - 48)) (0::nat) (string_of_nat b)"
    by (simp only: assms)
  then show ?thesis
    by (simp only: string_of_nat_inverse)
qed

lemma record_ids:
  "map record_id (build_records docId chunks vectors fname) =
     map (\<lambda>i. docId @ ''-chunk-'' @ string_of_nat i) [0..<length chunks]"
proof -
  let ?g = "\<lambda>i. docId @ ''-chunk-'' @ string_of_nat i"
  have "map record_id (build_records docId chunks vectors fname) =
        map (\<lambda>p. ?g (fst p)) (enumerate 0 chunks)"
    by (simp add: build_records_def build_record_def case_prod_unfold comp_def)
  also have "\<dots> = map ?g (map fst (enumerate 0 chunks))"
    by (simp only: map_map comp_def)
  also have "map fst (enumerate 0 chunks) = [0..<length chunks]"
    by simp
  finally show ?thesis .
qed

lemma record_ids_distinct:
  "distinct (map record_id (build_records docId chunks vectors fname))"
proof -
  have "inj (\<lambda>i. docId @ ''-chunk-'' @ string_of_nat i)"
    by (rule injI) (simp add: string_of_nat_inj)
  then have "inj_on (\<lambda>i. docId @ ''-chunk-'' @ string_of_nat i) (set [0..<length chunks])"
    by (rule inj_on_subset) simp
  then show ?thesis
    unfolding record_ids by (simp add: distinct_map)
qed

lemma length_build_records: "length (build_records docId chunks vectors fname) = length chunks"
  by (simp add: build_records_def)

lemma provider_upsert_append:
  "provider_upsert m (xs @ ys) = provider_upsert (provider_upsert m xs) ys"
  by (simp add: provider_upsert_def)

lemma provider_upsert_Cons:
  "provider_upsert m (x # xs) = provider_upsert (m(record_id x \<mapsto> x)) xs"
  by (simp add: provider_upsert_def)

lemma provider_upsert_Nil [simp]: "provider_upsert m [] = m"
  by (simp add: provider_upsert_def)

lemma dom_provider_upsert: "dom (provider_upsert m rs) = dom m \<union> record_id ` set rs"
  by (induction rs arbitrary: m) (auto simp: provider_upsert_Cons)

lemma provider_upsert_other:
  "k \<notin> record_id ` set rs \<Longrightarrow> provider_upsert m rs k = m k"
  by (induction rs arbitrary: m) (auto simp: provider_upsert_Cons)

lemma provider_upsert_written:
  "distinct (map record_id rs) \<Longrightarrow> r \<in> set rs \<Longrightarrow> provider_upsert m rs (record_id r) = Some r"
proof (induction rs arbitrary: m)
  case Nil
  then show ?case by simp
next
  case (Cons x xs)
  show ?case
  proof (cases "r = x")
    case True
    with Cons.prems(1) have "record_id r \<notin> record_id ` set xs" by simp
    from provider_upsert_other[OF this] True show ?thesis
      by (simp add: provider_upsert_Cons)
  next
    case False
    with Cons show ?thesis by (simp add: provider_upsert_Cons)
  qed
qed

lemma provider_upsert_idem:
  assumes "distinct (map record_id rs)"
  shows "provider_upsert (provider_upsert m rs) rs = provider_upsert m rs"
proof
  fix k
  show "provider_upsert (provider_upsert m rs) rs k = provider_upsert m rs k"
  proof (cases "k \<in> record_id ` set rs")
    case True
    then obtain r where "r \<in> set rs" "k = record_id r" by auto
    with assms show ?thesis by (simp add: provider_upsert_written)
  next
    case False
    then show ?thesis by (simp add: provider_upsert_other)
  qed
qed

lemma vector_store_record_call [simp]: "vector_store (record_call c p) = vector_store p"
  by (simp add: record_call_def)

lemma upsert_batches_store:
  "upsert_batches w rs i p = (Inr (), p')
   \<Longrightarrow> vector_store p' = provider_upsert (vector_store p) (drop i rs)"
proof (induction w rs i p rule: upsert_batches.induct)
  case (1 w records i p)
  show ?case
  proof (cases "i < length records")
    case False
    with "1.prems" show ?thesis
      by (subst (asm) upsert_batches.simps) simp
  next
    case True
    let ?batch = "take batchSize (drop i records)"
    let ?p1 = "record_call (IndexUpsert ?batch) p"
    let ?p2 = "?p1\<lparr>vector_store := provider_upsert (vector_store ?p1) ?batch\<rparr>"
    from "1.prems" True obtain u where ok: "index_upsert w (clock p) ?batch = Inr u"
      by (subst (asm) upsert_batches.simps) (auto simp: Let_def split: sum.splits)
    with "1.prems" True have rec: "upsert_batches w records (i + batchSize) ?p2 = (Inr (), p')"
      by (subst (asm) upsert_batches.simps) (simp add: Let_def)
    from "1.IH"[OF True refl refl ok rec]
    have "vector_store p' =
        provider_upsert (provider_upsert (vector_store p) ?batch) (drop (i + batchSize) records)"
      by simp
    also have "drop (i + batchSize) records = drop batchSize (drop i records)"
      by (simp add: add.commute)
    also have "provider_upsert (provider_upsert (vector_store p) ?batch)
                 (drop batchSize (drop i records)) =
               provider_upsert (vector_store p) (?batch @ drop batchSize (drop i records))"
      by (simp only: provider_upsert_append)
    also have "?batch @ drop batchSize (drop i records) = drop i records"
      by (rule append_take_drop_id)
    finally show ?thesis .
  qed
qed

lemma getPineconeClient_store: "getPineconeClient w p = (x, p') \<Longrightarrow> vector_store p' = vector_store p"
  by (auto simp: getPineconeClient_def split: if_splits)

lemma getIndex_store: "getIndex w p = (x, p') \<Longrightarrow> vector_store p' = vector_store p"
  by (auto simp: getIndex_def split: if_splits prod.splits sum.splits dest: getPineconeClient_store)

lemma storeVectors_store:
  assumes "storeVectors w docId chunks vectors fname p = (Inr (), p')"
  shows "vector_store p' =
           provider_upsert (vector_store p) (build_records docId chunks vectors fname)"
proof -
  from assms have t: "storeVectors_try w docId chunks vectors fname p = (Inr (), p')"
    by (auto simp: storeVectors_def rethrow_def split: prod.splits sum.splits)
  then obtain p1 where g: "getIndex w p = (Inr (), p1)"
    and u: "upsert_batches w (build_records docId chunks vectors fname) 0 p1 = (Inr (), p')"
    by (auto simp: storeVectors_try_def split: if_splits prod.splits sum.splits)
  from upsert_batches_store[OF u] getIndex_store[OF g] show ?thesis by simp
qed

text \<open>
  Claim C6. When \<open>storeVectors\<close> succeeds it has built one record per chunk, the
  record of chunk \<open>i\<close> having the id \<open><documentId>-chunk-<i>\<close>; these ids are pairwise
  different, and every record is written to the index. When the document is stored
  again under the same \<open>documentId\<close> with as many chunks, the ids are the same, the set
  of ids in the index is the same as after the first time (nothing is duplicated),
  every id holds the record of the second time, and storing the very same records
  leaves the index as it was.
\<close>

theorem storeVectors_idempotent_by_id:
  assumes "storeVectors w docId chunks vectors fname p = (Inr (), p1)"
    and "storeVectors w' docId chunks' vectors' fname' p1 = (Inr (), p2)"
    and "length chunks' = length chunks"
  shows "length (build_records docId chunks vectors fname) = length chunks
       \<and> map record_id (build_records docId chunks vectors fname) =
           map (\<lambda>i. docId @ ''-chunk-'' @ string_of_nat i) [0..<length chunks]
       \<and> distinct (map record_id (build_records docId chunks vectors fname))
       \<and> vector_store p1 =
           provider_upsert (vector_store p) (build_records docId chunks vectors fname)
       \<and> map record_id (build_records docId chunks' vectors' fname') =
           map record_id (build_records docId chunks vectors fname)
       \<and> dom (vector_store p2) = dom (vector_store p1)
       \<and> (\<forall>r \<in> set (build_records docId chunks' vectors' fname').
             vector_store p2 (record_id r) = Some r)
       \<and> (build_records docId chunks' vectors' fname' = build_records docId chunks vectors fname
            \<longrightarrow> vector_store p2 = vector_store p1)"
proof -
  let ?rs = "build_records docId chunks vectors fname"
  let ?rs' = "build_records docId chunks' vectors' fname'"
  note s1 = storeVectors_store[OF assms(1)]
  note s2 = storeVectors_store[OF assms(2)]
  have ids: "map record_id ?rs' = map record_id ?rs"
    by (simp add: record_ids assms(3))
  then have "record_id ` set ?rs' = record_id ` set ?rs"
    by (metis set_map)
  with s1 s2 have d: "dom (vector_store p2) = dom (vector_store p1)"
    by (auto simp: dom_provider_upsert)
  have w: "\<forall>r \<in> set ?rs'. vector_store p2 (record_id r) = Some r"
    by (simp add: s2 provider_upsert_written record_ids_distinct)
  have i: "?rs' = ?rs \<longrightarrow> vector_store p2 = vector_store p1"
    using s1 s2 by (simp add: provider_upsert_idem record_ids_distinct)
  from length_build_records[of docId chunks vectors fname]
    record_ids[of docId chunks vectors fname]
    record_ids_distinct[of docId chunks vectors fname] s1 ids d w i
  show ?thesis
    by blast
qed

theorem storeVectors_idempotent_by_id_witness:
  "fst (storeVectors world_ok ''d1'' two_chunks [[1], [2]] ''lecture.pdf'' fresh_proc) = Inr ()
   \<and> map record_id (build_records ''d1'' two_chunks [[1], [2]] ''lecture.pdf'') =
        [''d1-chunk-0'', ''d1-chunk-1'']
   \<and> vector_store (snd (storeVectors world_ok ''d1'' two_chunks [[1], [2]] ''lecture.pdf''
        (snd (storeVectors world_ok ''d1'' two_chunks [[1], [2]] ''lecture.pdf'' fresh_proc))))
      = vector_store (snd (storeVectors world_ok ''d1'' two_chunks [[1], [2]] ''lecture.pdf'' fresh_proc))
   \<and> vector_store (snd (storeVectors world_ok ''d1'' two_chunks [[1], [2]] ''lecture.pdf''
        (snd (storeVectors world_ok ''d1'' two_chunks [[1], [2]] ''lecture.pdf'' fresh_proc))))
        ''d1-chunk-0''
      = Some (build_record ''d1'' [[1], [2]] ''lecture.pdf'' 0 (hd two_chunks))"
proof -
  define p1 where "p1 = snd (storeVectors world_ok ''d1'' two_chunks [[1], [2]] ''lecture.pdf'' fresh_proc)"
  define p2 where "p2 = snd (storeVectors world_ok ''d1'' two_chunks [[1], [2]] ''lecture.pdf'' p1)"
  have "fst (storeVectors world_ok ''d1'' two_chunks [[1], [2]] ''lecture.pdf'' fresh_proc) = Inr ()"
    by code_simp
  then have a: "storeVectors world_ok ''d1'' two_chunks [[1], [2]] ''lecture.pdf'' fresh_proc = (Inr (), p1)"
    by (simp add: p1_def prod_eq_iff)
  have "fst (storeVectors world_ok ''d1'' two_chunks [[1], [2]] ''lecture.pdf''
          (snd (storeVectors world_ok ''d1'' two_chunks [[1], [2]] ''lecture.pdf'' fresh_proc))) = Inr ()"
    by code_simp
  then have b: "storeVectors world_ok ''d1'' two_chunks [[1], [2]] ''lecture.pdf'' p1 = (Inr (), p2)"
    by (simp add: p1_def p2_def prod_eq_iff)
  have ids: "map (\<lambda>i. ''d1'' @ ''-chunk-'' @ string_of_nat i) [0..<length two_chunks] =
      [''d1-chunk-0'', ''d1-chunk-1'']"
    by code_simp
  have r0: "build_record ''d1'' [[1], [2]] ''lecture.pdf'' 0 (hd two_chunks)
      \<in> set (build_records ''d1'' two_chunks [[1], [2]] ''lecture.pdf'')"
    by (simp add: build_records_def two_chunks_def)
  have i0: "record_id (build_record ''d1'' [[1], [2]] ''lecture.pdf'' 0 (hd two_chunks)) = ''d1-chunk-0''"
    by code_simp
  from storeVectors_idempotent_by_id[OF a b refl] a ids r0 i0 show ?thesis
    unfolding p1_def[symmetric] p2_def[symmetric]
    by (metis fst_conv)
qed

subsection \<open>Ingestion\<close>

text \<open>
  What \<open>processDocument\<close> resolves with: the page count the PDF parser reports and the
  number of chunks the text splitter returned, for a text that is not blank and at
  least one chunk.
\<close>

lemma processDocument_resolved:
  assumes "processDocument w path u name p = (Inr r, p')"
  shows "success r \<and> result_documentId r = u
       \<and> (\<exists>(pdf::pdf_data) (chunks::chunk list).
             splitDocuments w 1000 200
               [\<lparr>doc_pageContent = pdf_text pdf, doc_source = path,
                 doc_totalPages = numpages pdf\<rparr>] = Inr chunks
             \<and> chunks \<noteq> [] \<and> trim (pdf_text pdf) \<noteq> []
             \<and> result_pageCount r = numpages pdf
             \<and> result_chunkCount r = length chunks)"
proof -
  from assms have t: "processDocument_try w path u name p = (Inr r, p')"
    by (auto simp: processDocument_def rethrow_def split: prod.splits sum.splits)
  then show ?thesis
    unfolding processDocument_try_def Let_def
    apply (auto split: sum.splits option.splits if_splits prod.splits)
    subgoal for stats_size dataBuffer pdfData chunks
      by (intro exI[of _ pdfData] exI[of _ chunks]) simp
    done
qed

subsection \<open>The status of a document\<close>

lemma documents_fs_unlink [simp]: "documents (fs_unlink path s) = documents s"
  by (simp add: fs_unlink_def)

lemma background_fs_unlink [simp]: "background (fs_unlink path s) = background s"
  by (simp add: fs_unlink_def)

lemma uploadDocument_rejected:
  "fst (uploadDocument w u f s) = Inl err
   \<Longrightarrow> documents (snd (uploadDocument w u f s)) = documents s
     \<and> background (snd (uploadDocument w u f s)) = background s"
  by (auto simp: uploadDocument_def upload_catch_def Let_def split: option.splits if_splits)

lemma uploadDocument_accepted:
  "fst (uploadDocument w u f s) = Inr r
   \<Longrightarrow> \<exists>(d::document) (t::task). task_documentId t = u \<and> status d = ''processing'' \<and> error d = None
         \<and> documents (snd (uploadDocument w u f s)) = (documents s)(u \<mapsto> d)
         \<and> background (snd (uploadDocument w u f s)) = background s @ [t]"
proof (cases f)
  case None
  assume "fst (uploadDocument w u f s) = Inr r"
  with None show ?thesis by (simp add: uploadDocument_def)
next
  case (Some fl)
  assume a: "fst (uploadDocument w u f s) = Inr r"
  let ?d = "\<lparr>documentId = u, fileName = originalname fl,
             uploadDate = toISOString w (clock (proc_state s)),
             status = ''processing'', filePath = file_path fl,
             fileSize = file_size fl, pageCount = None, chunkCount = None,
             error = None\<rparr>"
  from a Some have "documents (snd (uploadDocument w u f s)) = (documents s)(u \<mapsto> ?d)
      \<and> background (snd (uploadDocument w u f s)) = background s @
               [\<lparr>task_filePath = file_path fl, task_documentId = u,
                 task_fileName = originalname fl\<rparr>]"
    by (simp add: uploadDocument_def upload_catch_def Let_def split: if_splits)
  moreover have "status ?d = ''processing'' \<and> error ?d = None" by simp
  moreover have "task_documentId \<lparr>task_filePath = file_path fl, task_documentId = u,
                 task_fileName = originalname fl\<rparr> = u" by simp
  ultimately show ?thesis by blast
qed

lemma uploadDocument_cases:
  "(documents (snd (uploadDocument w u f s)) = documents s
      \<and> background (snd (uploadDocument w u f s)) = background s)
   \<or> (\<exists>(d::document) (t::task). task_documentId t = u \<and> status d = ''processing'' \<and> error d = None
         \<and> documents (snd (uploadDocument w u f s)) = (documents s)(u \<mapsto> d)
         \<and> background (snd (uploadDocument w u f s)) = background s @ [t])"
proof (cases "fst (uploadDocument w u f s)")
  case (Inl err)
  from uploadDocument_rejected[OF this] show ?thesis by blast
next
  case (Inr r)
  from uploadDocument_accepted[OF this] show ?thesis by blast
qed

lemma settle_no_task:
  "find (\<lambda>t. task_documentId t = u) (background s) = None \<Longrightarrow> settle w u s = s"
  by (simp add: settle_def)

lemma settle_task:
  assumes "find (\<lambda>t. task_documentId t = u) (background s) = Some t"
  shows "background (settle w u s) = remove1 t (background s)"
    and "documents (settle w u s) =
          (case documents s u of
             None \<Rightarrow> documents s
           | Some d \<Rightarrow>
              (case fst (processDocument w (task_filePath t) (task_documentId t) (task_fileName t)
                         (proc_state s)) of
                 Inr result \<Rightarrow> (documents s)(u \<mapsto> d\<lparr>status := ''ready'',
                     pageCount := Some (result_pageCount result),
                     chunkCount := Some (result_chunkCount result)\<rparr>)
               | Inl err \<Rightarrow> (documents s)(u \<mapsto> d\<lparr>status := ''failed'',
                     error := Some (message err)\<rparr>)))"
proof -
  from assms have u: "task_documentId t = u"
    by (auto simp: find_Some_iff)
  show "background (settle w u s) = remove1 t (background s)"
    using assms
    by (auto simp: settle_def Let_def on_fulfilled_def on_rejected_def
        split: prod.splits sum.splits option.splits)
  show "documents (settle w u s) =
          (case documents s u of
             None \<Rightarrow> documents s
           | Some d \<Rightarrow>
              (case fst (processDocument w (task_filePath t) (task_documentId t) (task_fileName t)
                         (proc_state s)) of
                 Inr result \<Rightarrow> (documents s)(u \<mapsto> d\<lparr>status := ''ready'',
                     pageCount := Some (result_pageCount result),
                     chunkCount := Some (result_chunkCount result)\<rparr>)
               | Inl err \<Rightarrow> (documents s)(u \<mapsto> d\<lparr>status := ''failed'',
                     error := Some (message err)\<rparr>)))"
    using assms u
    by (auto simp: settle_def Let_def on_fulfilled_def on_rejected_def
        split: prod.splits sum.splits option.splits)
qed

lemma settle_pending_status:
  assumes "find (\<lambda>t. task_documentId t = u) (background s) = Some t"
    and "documents s u = Some d"
  shows "status_of u (settle w u s) =
     Some (case fst (processDocument w (task_filePath t) (task_documentId t) (task_fileName t)
                      (proc_state s)) of
             Inr result \<Rightarrow> ''ready'' | Inl err \<Rightarrow> ''failed'')"
  using settle_task(2)[OF assms(1), of w] assms(2)
  by (simp add: status_of_def split: sum.splits)

lemma settle_other:
  "u' \<noteq> u \<Longrightarrow> documents (settle w u' s) u = documents s u"
proof (cases "find (\<lambda>t. task_documentId t = u') (background s)")
  case None
  then show ?thesis by (simp add: settle_no_task)
next
  case (Some t)
  assume "u' \<noteq> u"
  with settle_task(2)[OF Some, of w] show ?thesis
    by (simp split: option.splits sum.splits)
qed

lemma step_other:
  assumes "\<forall>f. e \<noteq> Upload f u" and "e \<noteq> Settle u"
  shows "status_of u (step w s e) = status_of u s"
proof (cases e)
  case (Upload f u')
  with assms have "u' \<noteq> u" by auto
  with uploadDocument_cases[of w u' f s] Upload show ?thesis
    by (auto simp: step_def status_of_def)
next
  case (Settle u')
  with assms have "u' \<noteq> u" by auto
  with Settle show ?thesis
    by (simp add: step_def status_of_def settle_other)
qed (simp_all add: step_def status_of_def)

lemma step_status_next:
  assumes "server_ok s" and "fresh_event s e"
  shows "status_next (status_of u s) (status_of u (step w s e))"
proof (cases "(\<forall>f. e \<noteq> Upload f u) \<and> e \<noteq> Settle u")
  case True
  then show ?thesis by (simp add: step_other status_next_def)
next
  case False
  then consider f where "e = Upload f u" | "e = Settle u" by auto
  then show ?thesis
  proof cases
    case 1
    with assms(2) have "documents s u = None" by (simp add: fresh_event_def)
    with uploadDocument_cases[of w u f s] 1 show ?thesis
      by (auto simp: step_def status_of_def status_next_def)
  next
    case 2
    show ?thesis
    proof (cases "find (\<lambda>t. task_documentId t = u) (background s)")
      case None
      with 2 show ?thesis by (simp add: step_def settle_no_task status_next_def)
    next
      case (Some t)
      then have "t \<in> set (background s)" "task_documentId t = u"
        by (auto simp: find_Some_iff in_set_conv_nth)
      with assms(1) obtain d where d: "documents s u = Some d" "status d = ''processing''"
        by (auto simp: server_ok_def split: option.splits)
      from settle_pending_status[OF Some d(1), of w] d 2 show ?thesis
        by (auto simp: step_def status_of_def status_next_def split: sum.splits)
    qed
  qed
qed

lemma step_preserves_ok:
  assumes "server_ok s" and "fresh_event s e"
  shows "server_ok (step w s e)"
proof (cases e)
  case (Upload f u)
  with assms(2) have fresh: "documents s u = None" by (simp add: fresh_event_def)
  with assms(1) have notin: "u \<notin> task_documentId ` set (background s)"
    by (auto simp: server_ok_def split: option.splits)
  from uploadDocument_cases[of w u f s] show ?thesis
  proof
    assume "documents (snd (uploadDocument w u f s)) = documents s \<and>
            background (snd (uploadDocument w u f s)) = background s"
    with assms(1) Upload show ?thesis by (simp add: server_ok_def step_def)
  next
    assume "\<exists>(d::document) (t::task). task_documentId t = u \<and> status d = ''processing'' \<and> error d = None \<and>
        documents (snd (uploadDocument w u f s)) = (documents s)(u \<mapsto> d) \<and>
        background (snd (uploadDocument w u f s)) = background s @ [t]"
    with assms(1) notin Upload show ?thesis
      by (auto simp: server_ok_def step_def split: option.splits)
  qed
next
  case (Settle u)
  show ?thesis
  proof (cases "find (\<lambda>t. task_documentId t = u) (background s)")
    case None
    with Settle assms(1) show ?thesis by (simp add: step_def settle_no_task)
  next
    case (Some t)
    then have t: "t \<in> set (background s)" "task_documentId t = u"
      by (auto simp: find_Some_iff in_set_conv_nth)
    from assms(1) have dist: "distinct (map task_documentId (background s))"
      by (simp add: server_ok_def)
    then have d1: "distinct (map task_documentId (remove1 t (background s)))"
      by (simp add: distinct_map distinct_remove1 inj_on_def)
    from dist have db: "distinct (background s)"
      by (simp add: distinct_map)
    have others: "task_documentId t' \<noteq> u" if "t' \<in> set (remove1 t (background s))" for t'
    proof -
      from that db have "t' \<in> set (background s)" "t' \<noteq> t" by auto
      with dist t show ?thesis
        by (auto simp: distinct_map inj_on_def)
    qed
    have "case documents (settle w u s) (task_documentId t') of
            None \<Rightarrow> False | Some d \<Rightarrow> status d = ''processing''"
      if "t' \<in> set (remove1 t (background s))" for t'
    proof -
      from that have "t' \<in> set (background s)" by (meson notin_set_remove1)
      with assms(1) have "case documents s (task_documentId t') of
            None \<Rightarrow> False | Some d \<Rightarrow> status d = ''processing''"
        by (simp add: server_ok_def)
      with others[OF that] show ?thesis
        by (simp add: settle_other)
    qed
    with d1 Settle settle_task(1)[OF Some, of w] show ?thesis
      by (simp add: server_ok_def step_def)
  qed
qed (use assms(1) in \<open>simp_all add: step_def server_ok_def\<close>)

lemma run_successively:
  "server_ok s \<Longrightarrow> uuids_fresh w s es
   \<Longrightarrow> successively status_next (map (status_of u) (s # run w s es))"
proof (induction es arbitrary: s)
  case Nil
  then show ?case by simp
next
  case (Cons e es)
  from Cons.prems have f: "fresh_event s e" and r: "uuids_fresh w (step w s e) es"
    by (simp_all add: fresh_event_def)
  from step_preserves_ok[OF Cons.prems(1) f] have ok: "server_ok (step w s e)" .
  from Cons.IH[OF ok r] step_status_next[OF Cons.prems(1) f, of u w] show ?case
    by simp
qed

lemma history_settled:
  "successively status_next (Some st # xs) \<Longrightarrow> st \<noteq> ''processing''
   \<Longrightarrow> remdups_adj (Some st # xs) = [Some st]"
  by (induction xs) (auto simp: status_next_def)

lemma history_processing:
  "successively status_next (Some ''processing'' # xs)
   \<Longrightarrow> remdups_adj (Some ''processing'' # xs) \<in>
       {[Some ''processing''], [Some ''processing'', Some ''ready''],
        [Some ''processing'', Some ''failed'']}"
proof (induction xs)
  case Nil
  then show ?case by simp
next
  case (Cons x xs)
  from Cons.prems have n: "status_next (Some ''processing'') x"
    and rest: "successively status_next (x # xs)" by simp_all
  from n consider "x = Some ''processing''" | "x = Some ''ready''" | "x = Some ''failed''"
    by (auto simp: status_next_def)
  then show ?case
  proof cases
    case 1
    with Cons.IH rest show ?thesis by simp
  next
    case 2
    with history_settled[of "''ready''" xs] rest show ?thesis by simp
  next
    case 3
    with history_settled[of "''failed''" xs] rest show ?thesis by simp
  qed
qed

lemma history_absent:
  "successively status_next (None # xs)
   \<Longrightarrow> remdups_adj (None # xs) \<in>
       {[None], [None, Some ''processing''], [None, Some ''processing'', Some ''ready''],
        [None, Some ''processing'', Some ''failed'']}"
proof (induction xs)
  case Nil
  then show ?case by simp
next
  case (Cons x xs)
  from Cons.prems have n: "status_next None x"
    and rest: "successively status_next (x # xs)" by simp_all
  from n consider "x = None" | "x = Some ''processing''"
    by (auto simp: status_next_def)
  then show ?case
  proof cases
    case 1
    with Cons.IH rest show ?thesis by simp
  next
    case 2
    with history_processing[of xs] rest show ?thesis by auto
  qed
qed

lemma initial_server_ok: "server_ok initial_server"
  by (simp add: server_ok_def initial_server_def)

text \<open>
  Claim C1. In every run from the start of the process in which each upload brings a
  new identifier, the status of a document, with repetitions collapsed, is: absent;
  absent, processing; absent, processing, ready; or absent, processing, failed. So
  after its creation as processing the status changes at most once, to ready or to
  failed, and never changes again. Only the settling of the document's own background
  call can change the status of an existing document, and it sets ready when
  \<open>processDocument\<close> resolves and failed when it rejects.
\<close>

theorem status_transitions_once:
  assumes "uuids_fresh w initial_server es"
  shows "status_history w initial_server es uuid \<in>
           {[None], [None, Some ''processing''],
            [None, Some ''processing'', Some ''ready''],
            [None, Some ''processing'', Some ''failed'']}
         \<and> (\<forall>(s::server) e. (\<forall>f. e \<noteq> Upload f uuid) \<and> e \<noteq> Settle uuid
               \<longrightarrow> status_of uuid (step w s e) = status_of uuid s)
         \<and> (\<forall>(s::server) (t::task) (d::document).
               find (\<lambda>t. task_documentId t = uuid) (background s) = Some t
                    \<and> documents s uuid = Some d
               \<longrightarrow> status_of uuid (settle w uuid s) =
                     Some (case fst (processDocument w (task_filePath t) (task_documentId t)
                                       (task_fileName t) (proc_state s)) of
                             Inr result \<Rightarrow> ''ready'' | Inl err \<Rightarrow> ''failed''))"
proof (intro conjI allI impI)
  have "status_of uuid initial_server = None"
    by (simp add: status_of_def initial_server_def)
  with run_successively[OF initial_server_ok assms, of uuid]
  have "successively status_next (None # map (status_of uuid) (run w initial_server es))"
    by simp
  from history_absent[OF this] \<open>status_of uuid initial_server = None\<close>
  show "status_history w initial_server es uuid \<in>
           {[None], [None, Some ''processing''],
            [None, Some ''processing'', Some ''ready''],
            [None, Some ''processing'', Some ''failed'']}"
    by (simp add: status_history_def)
next
  fix s :: server and e
  assume "(\<forall>f. e \<noteq> Upload f uuid) \<and> e \<noteq> Settle uuid"
  then show "status_of uuid (step w s e) = status_of uuid s"
    by (simp add: step_other)
next
  fix s :: server and t :: task and d :: document
  assume "find (\<lambda>t. task_documentId t = uuid) (background s) = Some t \<and> documents s uuid = Some d"
  then show "status_of uuid (settle w uuid s) =
       Some (case fst (processDocument w (task_filePath t) (task_documentId t)
                         (task_fileName t) (proc_state s)) of
               Inr result \<Rightarrow> ''ready'' | Inl err \<Rightarrow> ''failed'')"
    by (simp add: settle_pending_status)
qed

theorem status_transitions_once_witness:
  "uuids_fresh world_ok initial_server lecture_run
   \<and> status_history world_ok initial_server lecture_run ''d1'' =
        [None, Some ''processing'', Some ''ready'']
   \<and> status_of ''d1'' (step world_ok (reached world_ok [Upload (Some lecture_file) ''d1''])
        (Query lecture_query)) = Some ''processing''
   \<and> status_of ''d1'' (settle world_no_file ''d1''
        (reached world_no_file [Upload (Some lecture_file) ''d1''])) = Some ''failed''"
proof -
  let ?s1 = "reached world_ok [Upload (Some lecture_file) ''d1'']"
  let ?s2 = "reached world_no_file [Upload (Some lecture_file) ''d1'']"
  have fresh: "uuids_fresh world_ok initial_server lecture_run"
    by code_simp
  note ok = status_transitions_once[OF fresh, of "''d1''"]
  have h: "status_history world_ok initial_server lecture_run ''d1'' =
        [None, Some ''processing'', Some ''ready'']"
    by code_simp
  have q: "(\<forall>f. Query lecture_query \<noteq> Upload f ''d1'') \<and> Query lecture_query \<noteq> Settle ''d1''"
    by simp
  with ok have "status_of ''d1'' (step world_ok ?s1 (Query lecture_query)) = status_of ''d1'' ?s1"
    by blast
  moreover have "status_of ''d1'' ?s1 = Some ''processing''"
    by code_simp
  ultimately have c2: "status_of ''d1'' (step world_ok ?s1 (Query lecture_query)) = Some ''processing''"
    by simp
  have fresh2: "uuids_fresh world_no_file initial_server []"
    by simp
  note no_file = status_transitions_once[OF fresh2, of "''d1''"]
  have t: "find (\<lambda>t. task_documentId t = ''d1'') (background ?s2) = Some lecture_task"
    by (simp add: reached_def step_def uploadDocument_def lecture_file_def lecture_task_def
        initial_server_def trim_def is_ws_def Let_def)
  have d: "documents ?s2 ''d1'' = Some lecture_processing"
    by (simp add: reached_def step_def uploadDocument_def lecture_file_def lecture_processing_def
        initial_server_def trim_def is_ws_def Let_def clock_def world_no_file_def world_ok_def)
  have r: "fst (processDocument world_no_file (task_filePath lecture_task)
             (task_documentId lecture_task) (task_fileName lecture_task) (proc_state ?s2)) =
           Inl (Error ''Failed to process PDF document: File not found at path: uploads/1-lecture.pdf'')"
    by code_simp
  from no_file t d have "status_of ''d1'' (settle world_no_file ''d1'' ?s2) =
      Some (case fst (processDocument world_no_file (task_filePath lecture_task)
             (task_documentId lecture_task) (task_fileName lecture_task) (proc_state ?s2)) of
              Inr result \<Rightarrow> ''ready'' | Inl err \<Rightarrow> ''failed'')"
    by blast
  with r have c3: "status_of ''d1'' (settle world_no_file ''d1'' ?s2) = Some ''failed''"
    by simp
  from fresh h c2 c3 show ?thesis
    by simp
qed

subsection \<open>Queries for a failed document\<close>

lemma processDocument_error_message:
  "fst (processDocument w path u name p) = Inl err \<Longrightarrow> message err \<noteq> []"
  by (auto simp: processDocument_def rethrow_def split: prod.splits sum.splits)

lemma step_failed_have_error:
  assumes "failed_have_error s"
  shows "failed_have_error (step w s e)"
proof (cases e)
  case (Upload f u)
  from uploadDocument_cases[of w u f s] assms Upload show ?thesis
    by (auto simp: failed_have_error_def step_def split: if_splits)
next
  case (Settle u)
  show ?thesis
  proof (cases "find (\<lambda>t. task_documentId t = u) (background s)")
    case None
    with Settle assms show ?thesis by (simp add: step_def settle_no_task)
  next
    case (Some t)
    show ?thesis
      unfolding failed_have_error_def
    proof (intro allI impI)
      fix u' d'
      assume a: "documents (step w s e) u' = Some d' \<and> status d' = ''failed''"
      show "\<exists>m. error d' = Some m \<and> m \<noteq> []"
      proof (cases "u' = u")
        case False
        with a Settle assms show ?thesis
          by (auto simp: step_def settle_other failed_have_error_def)
      next
        case True
        with a Settle settle_task(2)[OF Some, of w] assms
          processDocument_error_message[of w "task_filePath t" "task_documentId t" "task_fileName t" "proc_state s"]
        show ?thesis
          by (auto simp: step_def failed_have_error_def split: option.splits sum.splits)
      qed
    qed
  qed
qed (use assms in \<open>simp_all add: step_def failed_have_error_def\<close>)

lemma foldl_failed_have_error:
  "failed_have_error s \<Longrightarrow> failed_have_error (foldl (step w) s es)"
  by (induction es arbitrary: s) (simp_all add: step_failed_have_error)

lemma reached_failed_have_error: "failed_have_error (reached w es)"
  unfolding reached_def
  by (rule foldl_failed_have_error) (simp add: failed_have_error_def initial_server_def)

text \<open>
  Claim C10. In every server a run reaches, a document whose status is \<open>failed\<close> has a
  stored error message, and a query for it is handed to the error handler as an
  \<open>AppError\<close> with status 400 and code \<open>DOCUMENT_FAILED\<close> whose message embeds the
  stored message; the error handler answers with that status, message and code. The
  process state is untouched, so no step of the query pipeline has run.
\<close>

theorem handleQuery_rejects_failed:
  assumes "documents (reached w es) (body_documentId body) = Some doc"
    and "status doc = ''failed''"
  shows "\<exists>m. error doc = Some m \<and> m \<noteq> []
           \<and> handleQuery w (documents (reached w es)) body p =
               (Inl (AppError (''Document processing failed: '' @ m
                               @ ''. Please upload the document again.'')
                       400 ''DOCUMENT_FAILED''), p)
           \<and> errorHandler (AppError (''Document processing failed: '' @ m
                               @ ''. Please upload the document again.'')
                       400 ''DOCUMENT_FAILED'') =
               \<lparr>http_status = 400, response_success = False,
                response_error = ''Document processing failed: '' @ m
                               @ ''. Please upload the document again.'',
                response_code = ''DOCUMENT_FAILED''\<rparr>"
proof -
  from reached_failed_have_error[of w es] assms obtain m where m: "error doc = Some m" "m \<noteq> []"
    unfolding failed_have_error_def by blast
  with assms show ?thesis
    by (simp add: handleQuery_def errorHandler_def Let_def)
qed

theorem handleQuery_rejects_failed_witness:
  "documents (reached world_no_file [Upload (Some lecture_file) ''d1'', Settle ''d1''])
     (body_documentId lecture_query) = Some lecture_failed
   \<and> handleQuery world_no_file
       (documents (reached world_no_file [Upload (Some lecture_file) ''d1'', Settle ''d1'']))
       lecture_query fresh_proc =
     (Inl (AppError ''Document processing failed: Failed to process PDF document: File not found at path: uploads/1-lecture.pdf. Please upload the document again.''
             400 ''DOCUMENT_FAILED''), fresh_proc)"
proof -
  let ?es = "[Upload (Some lecture_file) ''d1'', Settle ''d1'']"
  have "documents (reached world_no_file ?es) ''d1'' = Some lecture_failed"
    by code_simp
  then have d: "documents (reached world_no_file ?es) (body_documentId lecture_query) = Some lecture_failed"
    by (simp add: lecture_query_def)
  have st: "status lecture_failed = ''failed''"
    by (simp add: lecture_failed_def)
  have e: "error lecture_failed =
      Some ''Failed to process PDF document: File not found at path: uploads/1-lecture.pdf''"
    by (simp add: lecture_failed_def)
  from handleQuery_rejects_failed[OF d st, of fresh_proc] e d show ?thesis
    by auto
qed

end
